theory Spec2Isabelle
  imports
    Complex_Main
    "HOL-Library.Multiset"
    "HOL-Library.Char_ord"
    "HOL-Library.List_Lexorder"
    "HOL-Library.Product_Lexorder"
begin

section \<open>Leader-follower analysis: the engine of the analyzer scripts\<close>

text \<open>
  The development embeds the core of \<^verbatim>\<open>csv_based_leader_follower_analyzer.py\<close>
  (class \<^verbatim>\<open>CsvBasedLeaderFollowerAnalyzer\<close>); the same methods are repeated, up to
  the default values of their parameters, in \<^verbatim>\<open>sector_leader_follower_analyzer.py\<close>.
  The methods embedded are \<^verbatim>\<open>load_data\<close> (from the trading-hours filter on),
  \<^verbatim>\<open>calculate_price_movements\<close>, \<^verbatim>\<open>identify_leader_signals\<close>,
  \<^verbatim>\<open>analyze_leader_follower_relationships\<close> and \<^verbatim>\<open>calculate_success_rates\<close>.

  A pandas DataFrame is a list of rows, a row a record with one field per column the
  engine reads. Finite floating-point numbers are read as the rationals they denote and
  arithmetic on them is exact; the non-finite results a division by zero produces are
  kept as values of their own.
\<close>

subsection \<open>Numbers\<close>

text \<open>
  A computed float column may hold \<^verbatim>\<open>NaN\<close> or an infinity: \<^verbatim>\<open>pct_change\<close> leaves
  \<^verbatim>\<open>NaN\<close> in the first row, and numpy divides by zero without raising
  (\<^verbatim>\<open>x / 0\<close> is \<^verbatim>\<open>inf\<close>, \<^verbatim>\<open>-inf\<close> or \<^verbatim>\<open>NaN\<close> for positive, negative and zero \<^verbatim>\<open>x\<close>).
  Every comparison with \<^verbatim>\<open>NaN\<close> is false.
\<close>

datatype fval = NaN | NInf | Fin rat | PInf

fun fgt :: "fval \<Rightarrow> rat \<Rightarrow> bool" where
  "fgt NaN c = False"
| "fgt NInf c = False"
| "fgt (Fin x) c = (x > c)"
| "fgt PInf c = True"

fun fge :: "fval \<Rightarrow> rat \<Rightarrow> bool" where
  "fge NaN c = False"
| "fge NInf c = False"
| "fge (Fin x) c = (x \<ge> c)"
| "fge PInf c = True"

definition fdiv :: "rat \<Rightarrow> rat \<Rightarrow> fval" where
  "fdiv a b =
     (if b = 0 then (if a > 0 then PInf else if a < 0 then NInf else NaN)
      else Fin (a / b))"

text \<open>\<^verbatim>\<open>v - c\<close> and \<^verbatim>\<open>v * c\<close> for a finite \<^verbatim>\<open>c\<close>, positive in the product.\<close>

fun fsub :: "fval \<Rightarrow> rat \<Rightarrow> fval" where
  "fsub (Fin x) c = Fin (x - c)"
| "fsub v c = v"

fun fscale :: "fval \<Rightarrow> rat \<Rightarrow> fval" where
  "fscale (Fin x) c = Fin (x * c)"
| "fscale v c = v"

text \<open>Rounding to the nearest integer, halves to the even one (\<^verbatim>\<open>round\<close>, \<^verbatim>\<open>numpy.rint\<close>).\<close>

definition rint :: "rat \<Rightarrow> int" where
  "rint x =
     (let f = \<lfloor>x\<rfloor>; d = x - of_int f
      in if d < 1 / 2 then f else if d > 1 / 2 then f + 1
         else if even f then f else f + 1)"

subsection \<open>Exceptions\<close>

text \<open>
  The exceptions the embedded methods can raise on their parameters: \<^verbatim>\<open>ValueError\<close> and
  \<^verbatim>\<open>OverflowError\<close> of Python, and the out-of-bounds errors of pandas
  (\<^verbatim>\<open>OutOfBoundsTimedelta\<close>, \<^verbatim>\<open>OutOfBoundsDatetime\<close>; some versions of pandas raise
  an \<^verbatim>\<open>OverflowError\<close> in their place, and nothing below depends on which). A method
  that can raise returns \<^term>\<open>Inl\<close> of the exception or \<^term>\<open>Inr\<close> of its result.
\<close>

datatype error = ValueError | OverflowError | OutOfBoundsError

subsection \<open>Timestamps\<close>

text \<open>
  A timestamp is the number of seconds since 1970-01-01 00:00:00; \<^verbatim>\<open>load_data\<close> parses
  it from a date and an \<^verbatim>\<open>HH:MM:SS\<close> time. \<^verbatim>\<open>.dt.hour\<close>, \<^verbatim>\<open>.dt.minute\<close> and
  \<^verbatim>\<open>.dt.date\<close> read the hour of the day, the minute of the hour and the calendar day.
\<close>

definition dt_hour :: "int \<Rightarrow> int" where
  "dt_hour t = (t div 3600) mod 24"

definition dt_minute :: "int \<Rightarrow> int" where
  "dt_minute t = (t div 60) mod 60"

definition dt_date :: "int \<Rightarrow> int" where
  "dt_date t = t div 86400"

text \<open>
  \<^verbatim>\<open>timedelta(minutes=m)\<close> is a whole number of microseconds: \<^verbatim>\<open>m\<close> minutes rounded to the
  nearest microsecond, halves to the even one. The constructor raises \<^verbatim>\<open>ValueError\<close> on
  \<^verbatim>\<open>NaN\<close>, and \<^verbatim>\<open>OverflowError\<close> on an infinity and when the duration is beyond
  999,999,999 days. The conversion of the minutes to microseconds is exact here; the
  constructor computes the microseconds of the fractional minute in floating point
  before it rounds them.
\<close>

definition timedelta_minutes :: "fval \<Rightarrow> error + int" where
  "timedelta_minutes m =
     (case m of
        NaN \<Rightarrow> Inl ValueError
      | NInf \<Rightarrow> Inl OverflowError
      | PInf \<Rightarrow> Inl OverflowError
      | Fin x \<Rightarrow>
          (let microseconds = rint (x * 60000000)
           in if \<bar>microseconds div 86400000000\<bar> > 999999999 then Inl OverflowError
              else Inr microseconds))"

text \<open>
  \<^verbatim>\<open>timestamp + timedelta\<close>, for a timestamp of a frame: pandas holds a timestamp and a
  duration as signed 64-bit counts of nanoseconds, and the sum raises when the duration
  or the result does not fit. The result is in microseconds since 1970-01-01 00:00:00.
\<close>

definition timestamp_add :: "int \<Rightarrow> int \<Rightarrow> error + int" where
  "timestamp_add t microseconds =
     (if \<bar>microseconds * 1000\<bar> > 2 ^ 63 - 1 \<or>
         \<bar>t * 1000000000 + microseconds * 1000\<bar> > 2 ^ 63 - 1
      then Inl OutOfBoundsError
      else Inr (t * 1000000 + microseconds))"

subsection \<open>Rows\<close>

text \<open>
  The columns of the loaded frame that the engine reads. The volume, the medium-order
  and the cumulative columns are carried along by the source and never read by the
  methods embedded here; they are left out.
\<close>

record bar =
  symbol :: string
  datetime :: int
  close_price :: rat
  large_buy :: rat
  xlarge_buy :: rat
  large_sell :: rat
  xlarge_sell :: rat

text \<open>The two columns \<^verbatim>\<open>load_data\<close> adds.\<close>

record row = bar +
  large_net :: rat
  large_total :: rat

text \<open>The columns \<^verbatim>\<open>calculate_price_movements\<close> adds.\<close>

record srow = row +
  return_1min :: fval
  return_5min :: fval
  daily_high :: rat
  daily_low :: rat
  rolling_max_30min :: rat
  is_daily_high :: bool
  is_daily_low :: bool
  is_30min_high :: bool
  large_total_ma30 :: rat

text \<open>The columns \<^verbatim>\<open>identify_leader_signals\<close> adds.\<close>

record frow = srow +
  leader_signal :: bool
  enhanced_leader_signal :: bool

subsection \<open>\<^verbatim>\<open>load_data\<close>\<close>

text \<open>
  \<^verbatim>\<open>
  trading_mask = (
      ((self.data['hour'] == 9) & (self.data['minute'] >= 1)) |
      ((self.data['hour'] >= 10) & (self.data['hour'] <= 12)) |
      ((self.data['hour'] == 13) & (self.data['minute'] <= 30)))
  self.data = self.data[trading_mask].reset_index(drop=True)
  self.data['large_net'] = (large_buy + xlarge_buy) - (large_sell + xlarge_sell)
  self.data['large_total'] = large_buy + xlarge_buy
  self.data = self.data.sort_values(['symbol', 'datetime']).reset_index(drop=True)
  self.stocks = sorted(self.data['symbol'].unique())
  \<close>
  Sorting a frame by several columns is stable in pandas, as \<^const>\<open>sort_key\<close> is.
\<close>

definition trading_mask :: "int \<Rightarrow> bool" where
  "trading_mask t =
     ((dt_hour t = 9 \<and> dt_minute t \<ge> 1) \<or>
      (dt_hour t \<ge> 10 \<and> dt_hour t \<le> 12) \<or>
      (dt_hour t = 13 \<and> dt_minute t \<le> 30))"

definition add_large :: "bar \<Rightarrow> row" where
  "add_large b =
     \<lparr> symbol = symbol b, datetime = datetime b, close_price = close_price b,
       large_buy = large_buy b, xlarge_buy = xlarge_buy b,
       large_sell = large_sell b, xlarge_sell = xlarge_sell b,
       large_net = (large_buy b + xlarge_buy b) - (large_sell b + xlarge_sell b),
       large_total = large_buy b + xlarge_buy b \<rparr>"

definition load_data :: "bar list \<Rightarrow> row list" where
  "load_data raw =
     sort_key (\<lambda>r. (symbol r, datetime r))
       (map add_large (filter (\<lambda>b. trading_mask (datetime b)) raw))"

definition stocks_of :: "row list \<Rightarrow> string list" where
  "stocks_of data = sort (remdups (map symbol data))"

subsection \<open>\<^verbatim>\<open>calculate_price_movements\<close>\<close>

text \<open>
  \<^verbatim>\<open>pct_change(k)\<close>: the close divided by the close \<^verbatim>\<open>k\<close> rows earlier, minus one;
  \<^verbatim>\<open>NaN\<close> in the first \<^verbatim>\<open>k\<close> rows.
\<close>

definition pct_change :: "nat \<Rightarrow> rat list \<Rightarrow> nat \<Rightarrow> fval" where
  "pct_change k xs i = (if i < k then NaN else fsub (fdiv (xs ! i) (xs ! (i - k))) 1)"

text \<open>
  \<^verbatim>\<open>rolling(window=w, min_periods=1)\<close>: the window of row \<^verbatim>\<open>i\<close> is the last \<^verbatim>\<open>w\<close> rows
  up to and including \<^verbatim>\<open>i\<close>, fewer at the start of the series. It is never empty.
\<close>

definition rolling :: "nat \<Rightarrow> 'a list \<Rightarrow> nat \<Rightarrow> 'a list" where
  "rolling w xs i = drop (Suc i - w) (take (Suc i) xs)"

definition mean :: "rat list \<Rightarrow> rat" where
  "mean xs = sum_list xs / of_nat (length xs)"

text \<open>
  \<^verbatim>\<open>groupby(datetime.dt.date)['close_price'].transform(f)\<close>: the closes of all rows of
  the series that fall on the calendar day of row \<^verbatim>\<open>i\<close>.
\<close>

definition day_closes :: "row list \<Rightarrow> nat \<Rightarrow> rat list" where
  "day_closes stock_data i =
     map close_price
       (filter (\<lambda>r. dt_date (datetime r) = dt_date (datetime (stock_data ! i))) stock_data)"

text \<open>
  The body of the loop over \<^verbatim>\<open>self.stocks\<close>, for the rows \<^verbatim>\<open>stock_data\<close> of one symbol:
  \<^verbatim>\<open>
  stock_data['return_1min'] = stock_data['close_price'].pct_change()
  stock_data['return_5min'] = stock_data['close_price'].pct_change(5)
  stock_data['daily_high'] = stock_data.groupby(stock_data['datetime'].dt.date)['close_price'].transform('max')
  stock_data['daily_low'] = stock_data.groupby(stock_data['datetime'].dt.date)['close_price'].transform('min')
  stock_data['rolling_max_30min'] = stock_data['close_price'].rolling(window=30, min_periods=1).max()
  stock_data['is_daily_high'] = stock_data['close_price'] >= stock_data['daily_high']
  stock_data['is_daily_low'] = stock_data['close_price'] <= stock_data['daily_low']
  stock_data['is_30min_high'] = stock_data['close_price'] >= stock_data['rolling_max_30min']
  stock_data['large_total_ma30'] = stock_data['large_total'].rolling(window=30, min_periods=1).mean()
  \<close>
\<close>

definition movements_row :: "row list \<Rightarrow> nat \<Rightarrow> srow" where
  "movements_row stock_data i =
     (let r = stock_data ! i;
          closes = map close_price stock_data;
          dh = Max (set (day_closes stock_data i));
          dl = Min (set (day_closes stock_data i));
          rm = Max (set (rolling 30 closes i))
      in \<lparr> symbol = symbol r, datetime = datetime r, close_price = close_price r,
            large_buy = large_buy r, xlarge_buy = xlarge_buy r,
            large_sell = large_sell r, xlarge_sell = xlarge_sell r,
            large_net = large_net r, large_total = large_total r,
            return_1min = pct_change 1 closes i,
            return_5min = pct_change 5 closes i,
            daily_high = dh,
            daily_low = dl,
            rolling_max_30min = rm,
            is_daily_high = (close_price r \<ge> dh),
            is_daily_low = (close_price r \<le> dl),
            is_30min_high = (close_price r \<ge> rm),
            large_total_ma30 = mean (rolling 30 (map large_total stock_data) i) \<rparr>)"

definition price_movements_symbol :: "row list \<Rightarrow> srow list" where
  "price_movements_symbol stock_data =
     map (movements_row stock_data) [0..<length stock_data]"

text \<open>
  \<^verbatim>\<open>
  for symbol in self.stocks:
      stock_data = self.data[self.data['symbol'] == symbol].copy()
      ...
      self.data.loc[self.data['symbol'] == symbol, stock_data.columns] = stock_data
  \<close>
  The frame is sorted by symbol and \<^verbatim>\<open>self.stocks\<close> lists the symbols in the same
  order, so the slices written back are the consecutive blocks of the frame.
\<close>

definition calculate_price_movements :: "row list \<Rightarrow> string list \<Rightarrow> srow list" where
  "calculate_price_movements data stocks =
     concat (map (\<lambda>s. price_movements_symbol (filter (\<lambda>r. symbol r = s) data)) stocks)"

subsection \<open>\<^verbatim>\<open>identify_leader_signals\<close>\<close>

text \<open>
  \<^verbatim>\<open>
  self.data['leader_signal'] = (
      (self.data['large_total'] > self.data['large_total_ma30'] * money_multiplier) &
      (self.data['large_total'] > min_amount) &
      (self.data['large_net'] > 0) &
      (self.data['return_1min'] > min_price_change) &
      (self.data['is_daily_high'] | self.data['is_30min_high']))
  self.data['enhanced_leader_signal'] = (
      self.data['leader_signal'] &
      (self.data['large_total'] > self.data['large_total_ma30'] * money_multiplier * 1.5) &
      (self.data['is_daily_high']))
  \<close>
  The method has no other statement that reads its parameters: it prints them, counts
  the flags per symbol, stores \<^verbatim>\<open>self.data[self.data['leader_signal']].copy()\<close> in
  \<^verbatim>\<open>self.results['leader_signals']\<close> and returns the total count.
\<close>

definition flag_row :: "rat \<Rightarrow> rat \<Rightarrow> rat \<Rightarrow> srow \<Rightarrow> frow" where
  "flag_row money_multiplier min_amount min_price_change r =
     (let ls = (large_total r > large_total_ma30 r * money_multiplier \<and>
                large_total r > min_amount \<and>
                large_net r > 0 \<and>
                fgt (return_1min r) min_price_change \<and>
                (is_daily_high r \<or> is_30min_high r))
      in \<lparr> symbol = symbol r, datetime = datetime r, close_price = close_price r,
            large_buy = large_buy r, xlarge_buy = xlarge_buy r,
            large_sell = large_sell r, xlarge_sell = xlarge_sell r,
            large_net = large_net r, large_total = large_total r,
            return_1min = return_1min r, return_5min = return_5min r,
            daily_high = daily_high r, daily_low = daily_low r,
            rolling_max_30min = rolling_max_30min r,
            is_daily_high = is_daily_high r, is_daily_low = is_daily_low r,
            is_30min_high = is_30min_high r,
            large_total_ma30 = large_total_ma30 r,
            leader_signal = ls,
            enhanced_leader_signal =
              (ls \<and> large_total r > large_total_ma30 r * money_multiplier * (3 / 2) \<and>
               is_daily_high r) \<rparr>)"

text \<open>The frame after the call, the stored signal rows, and the returned count.\<close>

definition identify_leader_signals :: "rat \<Rightarrow> rat \<Rightarrow> rat \<Rightarrow> srow list \<Rightarrow> frow list" where
  "identify_leader_signals money_multiplier min_amount min_price_change data =
     map (flag_row money_multiplier min_amount min_price_change) data"

definition leader_signals :: "frow list \<Rightarrow> frow list" where
  "leader_signals data = filter leader_signal data"

definition total_signals :: "frow list \<Rightarrow> string list \<Rightarrow> nat" where
  "total_signals data stocks =
     sum_list (map (\<lambda>s. length (filter leader_signal (filter (\<lambda>r. symbol r = s) data))) stocks)"

subsection \<open>\<^verbatim>\<open>analyze_leader_follower_relationships\<close>\<close>

record lf_pair =
  leader_symbol :: string
  follower_symbol :: string
  leader_time :: int
  follower_time :: int
  time_lag_minutes :: rat
  leader_close :: rat
  leader_large_total :: rat
  leader_large_net :: rat
  leader_return_1min :: fval
  follower_base_price :: rat
  follower_trigger_price :: rat
  follower_gain_pct :: fval
  is_enhanced_signal :: bool

text \<open>\<^verbatim>\<open>(close_price - base_price) / base_price * 100\<close>\<close>

definition gain_pct :: "rat \<Rightarrow> rat \<Rightarrow> fval" where
  "gain_pct close base_price = fscale (fdiv (close - base_price) base_price) 100"

text \<open>
  The body of the inner loop, for one signal row and one follower symbol other than the
  leader's; \<^verbatim>\<open>window_end\<close>, computed once for the signal, is in microseconds.
  \<^verbatim>\<open>
  follower_base_data = self.data[(symbol == follower_symbol) & (datetime <= signal_time)]
  if follower_base_data.empty: continue
  base_price = follower_base_data.iloc[-1]['close_price']
  follower_window_data = self.data[(symbol == follower_symbol) &
      (datetime > window_start) & (datetime <= window_end)].copy()
  if follower_window_data.empty: continue
  follower_window_data['gain_pct'] = (close_price - base_price) / base_price * 100
  significant_gains = follower_window_data[follower_window_data['gain_pct'] >= min_gain]
  if not significant_gains.empty:
      first_gain = significant_gains.iloc[0]
      time_lag = (first_gain['datetime'] - signal_time).total_seconds() / 60
      pair = {...}
      leader_follower_pairs.append(pair)
  \<close>
  \<^verbatim>\<open>None\<close> is the iteration that appends nothing.
\<close>

definition follower_response :: "frow list \<Rightarrow> frow \<Rightarrow> string \<Rightarrow> int \<Rightarrow> rat \<Rightarrow> lf_pair option" where
  "follower_response data signal follower window_end min_gain =
     (let signal_time = datetime signal;
          window_start = signal_time;
          follower_base_data =
            filter (\<lambda>r. symbol r = follower \<and> datetime r \<le> signal_time) data
      in if follower_base_data = [] then None
         else
           let base_price = close_price (last follower_base_data);
               follower_window_data =
                 filter (\<lambda>r. symbol r = follower \<and> datetime r > window_start \<and>
                              datetime r * 1000000 \<le> window_end) data
           in if follower_window_data = [] then None
              else
                let significant_gains =
                      filter (\<lambda>r. fge (gain_pct (close_price r) base_price) min_gain)
                        follower_window_data
                in if significant_gains = [] then None
                   else
                     let first_gain = hd significant_gains
                     in Some \<lparr> leader_symbol = symbol signal,
                               follower_symbol = follower,
                               leader_time = signal_time,
                               follower_time = datetime first_gain,
                               time_lag_minutes =
                                 of_int (datetime first_gain - signal_time) / 60,
                               leader_close = close_price signal,
                               leader_large_total = large_total signal,
                               leader_large_net = large_net signal,
                               leader_return_1min = fscale (return_1min signal) 100,
                               follower_base_price = base_price,
                               follower_trigger_price = close_price first_gain,
                               follower_gain_pct =
                                 gain_pct (close_price first_gain) base_price,
                               is_enhanced_signal = enhanced_leader_signal signal \<rparr>)"

text \<open>
  The first statements of the outer loop, for one signal row: the window is computed from
  the parameter as it was passed.
  \<^verbatim>\<open>
  signal_time = signal['datetime']
  leader_symbol = signal['symbol']
  window_start = signal_time
  window_end = signal_time + timedelta(minutes=max_lag_minutes)
  \<close>
\<close>

definition window_end_at :: "int \<Rightarrow> fval \<Rightarrow> error + int" where
  "window_end_at signal_time max_lag_minutes =
     (case timedelta_minutes max_lag_minutes of
        Inl e \<Rightarrow> Inl e
      | Inr duration \<Rightarrow> timestamp_add signal_time duration)"

text \<open>
  The body of the outer loop: an exception of the window computation ends the call, and
  otherwise the followers are taken in the order of \<^verbatim>\<open>self.stocks\<close>.
  \<^verbatim>\<open>
  for follower_symbol in self.stocks:
      if follower_symbol == leader_symbol: continue
      ...
  \<close>
\<close>

definition signal_pairs ::
    "frow list \<Rightarrow> string list \<Rightarrow> fval \<Rightarrow> rat \<Rightarrow> frow \<Rightarrow> error + lf_pair list" where
  "signal_pairs data stocks max_lag_minutes min_gain signal =
     (case window_end_at (datetime signal) max_lag_minutes of
        Inl e \<Rightarrow> Inl e
      | Inr window_end \<Rightarrow>
          Inr (concat (map (\<lambda>follower_symbol.
                              if follower_symbol = symbol signal then []
                              else (case follower_response data signal follower_symbol
                                           window_end min_gain of
                                      None \<Rightarrow> []
                                    | Some pair \<Rightarrow> [pair]))
                         stocks)))"

text \<open>
  \<^verbatim>\<open>
  leader_follower_pairs = []
  leader_signals = self.data[self.data['leader_signal']].copy()
  for idx, signal in leader_signals.iterrows():
      ...
  \<close>
  The signals are taken in the order of the frame; the first exception ends the loop. The
  method returns the frame of the pairs appended, an empty frame when there is none.
\<close>

fun scan_signals :: "(frow \<Rightarrow> error + lf_pair list) \<Rightarrow> frow list \<Rightarrow> error + lf_pair list" where
  "scan_signals body [] = Inr []"
| "scan_signals body (signal # signals) =
     (case body signal of
        Inl e \<Rightarrow> Inl e
      | Inr pairs \<Rightarrow>
          (case scan_signals body signals of
             Inl e \<Rightarrow> Inl e
           | Inr later \<Rightarrow> Inr (pairs @ later)))"

definition analyze_leader_follower_relationships ::
    "frow list \<Rightarrow> string list \<Rightarrow> fval \<Rightarrow> rat \<Rightarrow> error + lf_pair list" where
  "analyze_leader_follower_relationships data stocks max_lag_minutes min_gain =
     scan_signals (signal_pairs data stocks max_lag_minutes min_gain)
       (filter leader_signal data)"

subsection \<open>The run up to the pair collection\<close>

text \<open>
  Steps 1 to 4 of \<^verbatim>\<open>run_complete_analysis\<close>, with the parameters of steps 3 and 4
  exposed: the frame the matcher scans, and the pairs it emits.
\<close>

definition analysis_frame :: "rat \<Rightarrow> rat \<Rightarrow> rat \<Rightarrow> bar list \<Rightarrow> frow list" where
  "analysis_frame money_multiplier min_amount min_price_change raw =
     (let data = load_data raw
      in identify_leader_signals money_multiplier min_amount min_price_change
           (calculate_price_movements data (stocks_of data)))"

definition analysis_pairs ::
    "rat \<Rightarrow> rat \<Rightarrow> rat \<Rightarrow> fval \<Rightarrow> rat \<Rightarrow> bar list \<Rightarrow> error + lf_pair list" where
  "analysis_pairs money_multiplier min_amount min_price_change max_lag_minutes min_gain raw =
     analyze_leader_follower_relationships
       (analysis_frame money_multiplier min_amount min_price_change raw)
       (stocks_of (load_data raw)) max_lag_minutes min_gain"

subsection \<open>\<^verbatim>\<open>calculate_success_rates\<close>\<close>

text \<open>
  \<^verbatim>\<open>Series.mean\<close>, \<^verbatim>\<open>Series.max\<close> and \<^verbatim>\<open>Series.median\<close> skip \<^verbatim>\<open>NaN\<close>;
  \<^verbatim>\<open>DataFrame.round(2)\<close> rounds to two decimals, halves to the even digit.
\<close>

fun the_fin :: "fval \<Rightarrow> rat" where
  "the_fin (Fin x) = x"
| "the_fin v = 0"

definition fmean :: "fval list \<Rightarrow> fval" where
  "fmean vs =
     (let ws = filter (\<lambda>v. v \<noteq> NaN) vs
      in if ws = [] then NaN
         else if PInf \<in> set ws \<and> NInf \<in> set ws then NaN
         else if PInf \<in> set ws then PInf
         else if NInf \<in> set ws then NInf
         else Fin (mean (map the_fin ws)))"

fun fmax2 :: "fval \<Rightarrow> fval \<Rightarrow> fval" where
  "fmax2 NaN v = v"
| "fmax2 v NaN = v"
| "fmax2 PInf v = PInf"
| "fmax2 v PInf = PInf"
| "fmax2 NInf v = v"
| "fmax2 v NInf = v"
| "fmax2 (Fin a) (Fin b) = Fin (max a b)"

definition fmax :: "fval list \<Rightarrow> fval" where
  "fmax vs = foldr fmax2 vs NaN"

definition median :: "rat list \<Rightarrow> rat" where
  "median xs =
     (let s = sort xs; n = length s
      in if odd n then s ! (n div 2) else (s ! (n div 2 - 1) + s ! (n div 2)) / 2)"

definition round2 :: "rat \<Rightarrow> rat" where
  "round2 x = of_int (rint (x * 100)) / 100"

fun fround2 :: "fval \<Rightarrow> fval" where
  "fround2 (Fin x) = Fin (round2 x)"
| "fround2 v = v"

text \<open>
  A row of a summary table: the group key (the index), the count, then the mean columns.
\<close>

type_synonym leader_stat = "string \<times> nat \<times> rat \<times> fval \<times> rat"
type_synonym follower_stat = "string \<times> nat \<times> rat \<times> fval"
type_synonym pair_stat = "(string \<times> string) \<times> nat \<times> rat \<times> fval"

definition row_key :: "'k \<times> nat \<times> 'c \<Rightarrow> 'k" where
  "row_key r = fst r"

definition row_count :: "'k \<times> nat \<times> 'c \<Rightarrow> nat" where
  "row_count r = fst (snd r)"

text \<open>
  \<^verbatim>\<open>
  leader_stats = pairs_df.groupby('leader_symbol').agg({
      'follower_symbol': 'count', 'time_lag_minutes': 'mean',
      'follower_gain_pct': 'mean', 'leader_large_total': 'mean'}).round(2)
  follower_stats = pairs_df.groupby('follower_symbol').agg({
      'leader_symbol': 'count', 'time_lag_minutes': 'mean',
      'follower_gain_pct': 'mean'}).round(2)
  pair_stats = pairs_df.groupby(['leader_symbol', 'follower_symbol']).agg({
      'time_lag_minutes': ['count', 'mean'], 'follower_gain_pct': 'mean'}).round(2)
  \<close>
  \<^verbatim>\<open>groupby\<close> yields one row per key, the keys in ascending order.
\<close>

definition leader_groupby :: "lf_pair list \<Rightarrow> leader_stat list" where
  "leader_groupby pairs_df =
     map (\<lambda>k. let g = filter (\<lambda>p. leader_symbol p = k) pairs_df
               in (k, length g,
                   round2 (mean (map time_lag_minutes g)),
                   fround2 (fmean (map follower_gain_pct g)),
                   round2 (mean (map leader_large_total g))))
       (sort (remdups (map leader_symbol pairs_df)))"

definition follower_groupby :: "lf_pair list \<Rightarrow> follower_stat list" where
  "follower_groupby pairs_df =
     map (\<lambda>k. let g = filter (\<lambda>p. follower_symbol p = k) pairs_df
               in (k, length g,
                   round2 (mean (map time_lag_minutes g)),
                   fround2 (fmean (map follower_gain_pct g))))
       (sort (remdups (map follower_symbol pairs_df)))"

definition pair_groupby :: "lf_pair list \<Rightarrow> pair_stat list" where
  "pair_groupby pairs_df =
     map (\<lambda>k. let g = filter (\<lambda>p. (leader_symbol p, follower_symbol p) = k) pairs_df
               in (k, length g,
                   round2 (mean (map time_lag_minutes g)),
                   fround2 (fmean (map follower_gain_pct g))))
       (sort (remdups (map (\<lambda>p. (leader_symbol p, follower_symbol p)) pairs_df)))"

text \<open>
  \<^verbatim>\<open>table.sort_values(count_column, ascending=False)\<close> sorts with the default
  \<^verbatim>\<open>kind='quicksort'\<close>, which pandas documents as not stable: the call returns the rows
  of the table ordered by descending count, and which of the orders of the rows of
  equal count it returns is left to the sorting routine. \<^term>\<open>sort_values_desc tbl out\<close>
  holds for every \<^term>\<open>out\<close> the call may return on \<^term>\<open>tbl\<close>.
\<close>

definition sort_values_desc :: "('k \<times> nat \<times> 'c) list \<Rightarrow> ('k \<times> nat \<times> 'c) list \<Rightarrow> bool" where
  "sort_values_desc tbl out =
     (mset out = mset tbl \<and> sorted_wrt (\<lambda>a b. row_count a \<ge> row_count b) out)"

text \<open>The dict the method returns: \<^verbatim>\<open>{}\<close>, or the eight entries of a computed summary.\<close>

record summary =
  total_pairs :: nat
  average_time_lag :: rat
  median_time_lag :: rat
  average_follower_gain :: fval
  max_follower_gain :: fval
  leader_ranking :: "leader_stat list"
  follower_ranking :: "follower_stat list"
  best_pairs :: "pair_stat list"

datatype stats = Empty_stats | Stats summary



text \<open>
  \<^verbatim>\<open>
  if pairs_df.empty:
      return {}
  stats = {'total_pairs': len(pairs_df), 'average_time_lag': ..., ...}
  ...
  leader_stats = leader_stats.sort_values('...', ascending=False)
  follower_stats = follower_stats.sort_values('...', ascending=False)
  pair_stats = pair_stats.sort_values('...', ascending=False)
  stats.update({'leader_ranking': leader_stats, 'follower_ranking': follower_stats,
                'best_pairs': pair_stats})
  self.results['statistics'] = stats
  return stats
  \<close>
  The entry \<^verbatim>\<open>self.results['statistics']\<close> is \<^term>\<open>None\<close> while the key is absent.
  \<^term>\<open>calculate_success_rates pairs_df st (stats, st')\<close> holds when the call on
  \<^term>\<open>pairs_df\<close>, with the entry at \<^term>\<open>st\<close>, may return \<^term>\<open>stats\<close> and leave the
  entry at \<^term>\<open>st'\<close>.
\<close>

definition calculate_success_rates ::
    "lf_pair list \<Rightarrow> stats option \<Rightarrow> stats \<times> stats option \<Rightarrow> bool" where
  "calculate_success_rates pairs_df results_statistics outcome =
     (if pairs_df = [] then outcome = (Empty_stats, results_statistics)
      else (case fst outcome of
              Empty_stats \<Rightarrow> False
            | Stats s \<Rightarrow>
                snd outcome = Some (Stats s) \<and>
                total_pairs s = length pairs_df \<and>
                average_time_lag s = mean (map time_lag_minutes pairs_df) \<and>
                median_time_lag s = median (map time_lag_minutes pairs_df) \<and>
                average_follower_gain s = fmean (map follower_gain_pct pairs_df) \<and>
                max_follower_gain s = fmax (map follower_gain_pct pairs_df) \<and>
                sort_values_desc (leader_groupby pairs_df) (leader_ranking s) \<and>
                sort_values_desc (follower_groupby pairs_df) (follower_ranking s) \<and>
                sort_values_desc (pair_groupby pairs_df) (best_pairs s)))"

section \<open>A sample run\<close>

text \<open>
  Four symbols on one day, in the order the files happen to be read. \<^verbatim>\<open>A\<close> rises on a
  large buy at 09:10 and \<^verbatim>\<open>C\<close> at 09:12; \<^verbatim>\<open>B\<close> trades at 100 at 09:08 and then at
  100.3, 100.6 and 101; \<^verbatim>\<open>D\<close> starts trading at 09:20. The bar at 09:00 is outside the
  trading hours.
\<close>

definition mk_bar :: "string \<Rightarrow> int \<Rightarrow> int \<Rightarrow> rat \<Rightarrow> rat \<Rightarrow> rat \<Rightarrow> bar" where
  "mk_bar s h m c buy sell =
     \<lparr> symbol = s, datetime = h * 3600 + m * 60, close_price = c,
       large_buy = buy, xlarge_buy = 0, large_sell = sell, xlarge_sell = 0 \<rparr>"

definition example_bars :: "bar list" where
  "example_bars =
     [ mk_bar ''B'' 9 25 101 0 0,
       mk_bar ''C'' 9 12 21 3000000 500000,
       mk_bar ''D'' 9 21 11 0 0,
       mk_bar ''A'' 9 9 50 1000000 0,
       mk_bar ''A'' 9 10 51 3000000 500000,
       mk_bar ''B'' 9 0 99 0 0,
       mk_bar ''B'' 9 8 100 0 0,
       mk_bar ''D'' 9 20 10 0 0,
       mk_bar ''C'' 9 9 20 1000000 0,
       mk_bar ''B'' 9 15 (1003 / 10) 0 0,
       mk_bar ''B'' 9 18 (1006 / 10) 0 0 ]"

text \<open>The pairs of the run with the thresholds 1.3, 1,000,000 and 0.3%, a window of 30 minutes
  and a gain floor of 0.5%.\<close>

definition pair_AB :: lf_pair where
  "pair_AB =
     \<lparr> leader_symbol = ''A'', follower_symbol = ''B'', leader_time = 33000,
       follower_time = 33480, time_lag_minutes = 8, leader_close = 51,
       leader_large_total = 3000000, leader_large_net = 2500000,
       leader_return_1min = Fin 2, follower_base_price = 100,
       follower_trigger_price = 503 / 5, follower_gain_pct = Fin (3 / 5),
       is_enhanced_signal = False \<rparr>"

definition pair_AC :: lf_pair where
  "pair_AC =
     \<lparr> leader_symbol = ''A'', follower_symbol = ''C'', leader_time = 33000,
       follower_time = 33120, time_lag_minutes = 2, leader_close = 51,
       leader_large_total = 3000000, leader_large_net = 2500000,
       leader_return_1min = Fin 2, follower_base_price = 20,
       follower_trigger_price = 21, follower_gain_pct = Fin 5,
       is_enhanced_signal = False \<rparr>"

definition pair_CB :: lf_pair where
  "pair_CB =
     \<lparr> leader_symbol = ''C'', follower_symbol = ''B'', leader_time = 33120,
       follower_time = 33480, time_lag_minutes = 6, leader_close = 21,
       leader_large_total = 3000000, leader_large_net = 2500000,
       leader_return_1min = Fin 5, follower_base_price = 100,
       follower_trigger_price = 503 / 5, follower_gain_pct = Fin (3 / 5),
       is_enhanced_signal = False \<rparr>"

text \<open>The frame of that run.\<close>

definition example_frame :: "frow list" where
  "example_frame = analysis_frame (13 / 10) 1000000 (3 / 1000) example_bars"

text \<open>
  Two symbols over two days. \<^verbatim>\<open>A\<close> closes the first day at 60, opens the second at 50
  and rises to 51 on a large buy at 09:02; \<^verbatim>\<open>B\<close> trades at 100 at 09:01 and at 101 at
  09:10. The second input has one more bar, of \<^verbatim>\<open>A\<close>, at 09:03 of the second day, at 52.
\<close>

definition lookahead_bars :: "bar list" where
  "lookahead_bars =
     [ mk_bar ''A'' 13 30 60 1000000 0,
       mk_bar ''A'' 33 1 50 1000000 0,
       mk_bar ''A'' 33 2 51 3000000 500000,
       mk_bar ''B'' 33 1 100 0 0,
       mk_bar ''B'' 33 10 101 0 0 ]"

definition lookahead_bars_later :: "bar list" where
  "lookahead_bars_later = lookahead_bars @ [mk_bar ''A'' 33 3 52 0 0]"

definition pair_lookahead :: lf_pair where
  "pair_lookahead =
     \<lparr> leader_symbol = ''A'', follower_symbol = ''B'', leader_time = 118920,
       follower_time = 119400, time_lag_minutes = 8, leader_close = 51,
       leader_large_total = 3000000, leader_large_net = 2500000,
       leader_return_1min = Fin 2, follower_base_price = 100,
       follower_trigger_price = 101, follower_gain_pct = Fin 1,
       is_enhanced_signal = False \<rparr>"


text \<open>A summary of the three pairs of the sample run.\<close>

definition example_summary :: summary where
  "example_summary =
     \<lparr> total_pairs = 3, average_time_lag = 16 / 3, median_time_lag = 6,
       average_follower_gain = Fin (31 / 15), max_follower_gain = Fin 5,
       leader_ranking =
         [(''A'', 2, 5, Fin (14 / 5), 3000000), (''C'', 1, 6, Fin (3 / 5), 3000000)],
       follower_ranking = [(''B'', 2, 7, Fin (3 / 5)), (''C'', 1, 2, Fin 5)],
       best_pairs =
         [((''A'', ''B''), 1, 8, Fin (3 / 5)), ((''A'', ''C''), 1, 2, Fin 5),
          ((''C'', ''B''), 1, 6, Fin (3 / 5))] \<rparr>"

text \<open>
  Eighteen leaders that signal in the same minute, each followed once by \<^verbatim>\<open>3711\<close>: every
  row of the table of leaders has the count 1. The summary lists these rows in the order
  in which a quicksort that partitions around the median of three and sorts runs of
  fewer than eighteen elements by insertion, as the generic routine of numpy does,
  leaves eighteen equal counts.
\<close>

definition mk_pair :: "string \<Rightarrow> lf_pair" where
  "mk_pair leader =
     \<lparr> leader_symbol = leader, follower_symbol = ''3711'', leader_time = 33000,
       follower_time = 33480, time_lag_minutes = 8, leader_close = 51,
       leader_large_total = 3000000, leader_large_net = 2500000,
       leader_return_1min = Fin 2, follower_base_price = 100,
       follower_trigger_price = 503 / 5, follower_gain_pct = Fin (3 / 5),
       is_enhanced_signal = False \<rparr>"

definition tied_pairs :: "lf_pair list" where
  "tied_pairs =
     map mk_pair
       [''1101'', ''1102'', ''1216'', ''1301'', ''1303'', ''1326'',
        ''2002'', ''2303'', ''2308'', ''2317'', ''2330'', ''2357'',
        ''2382'', ''2412'', ''2454'', ''2881'', ''2882'', ''3008'']"

definition tied_order :: "nat list" where
  "tied_order = [0, 1, 16, 15, 14, 13, 12, 11, 10, 9, 8, 7, 6, 5, 4, 3, 2, 17]"

definition tied_summary :: summary where
  "tied_summary =
     \<lparr> total_pairs = 18, average_time_lag = 8, median_time_lag = 8,
       average_follower_gain = Fin (3 / 5), max_follower_gain = Fin (3 / 5),
       leader_ranking = map ((!) (leader_groupby tied_pairs)) tied_order,
       follower_ranking = follower_groupby tied_pairs,
       best_pairs = map ((!) (pair_groupby tied_pairs)) tied_order \<rparr>"

section \<open>Properties\<close>

subsection \<open>Lists sorted by a key\<close>

lemma sorted_map_last_max:
  fixes k :: "'a \<Rightarrow> 'b::linorder"
  assumes "sorted (map k xs)" "x \<in> set xs"
  shows "k x \<le> k (last xs)"
  using assms
  by (induction xs) (auto split: if_splits)

lemma sorted_map_hd_min:
  fixes k :: "'a \<Rightarrow> 'b::linorder"
  assumes "sorted (map k xs)" "x \<in> set xs"
  shows "k (hd xs) \<le> k x"
  using assms by (cases xs) auto

lemma sorted_symbol_filter:
  assumes "sorted (map datetime (filter (\<lambda>r. symbol r = f) data))"
  shows "sorted (map datetime (filter (\<lambda>r. symbol r = f \<and> Q r) data))"
proof -
  have "filter (\<lambda>r. symbol r = f \<and> Q r) data = filter Q (filter (\<lambda>r. symbol r = f) data)"
    by simp
  then show ?thesis using assms by (simp only: sorted_filter)
qed

subsection \<open>Rounding and durations\<close>

lemma rint_of_int [simp]: "rint (of_int k) = k"
  by (simp add: rint_def)

lemma rint_upper: "of_int (rint y) \<le> y + 1 / 2"
proof -
  have "of_int \<lfloor>y\<rfloor> \<le> y" by simp
  then show ?thesis
    unfolding rint_def Let_def by (simp; linarith)
qed

lemma rint_lower: "y - 1 / 2 \<le> of_int (rint y)"
proof -
  have "y < of_int \<lfloor>y\<rfloor> + 1" by linarith
  then show ?thesis
    unfolding rint_def Let_def by (simp; linarith)
qed

lemma rint_nonpos:
  assumes "y \<le> 0"
  shows "rint y \<le> 0"
proof -
  have "(of_int (rint y) :: rat) \<le> y + 1 / 2" by (rule rint_upper)
  with assms have "(of_int (rint y) :: rat) < 1" by simp
  then show ?thesis by linarith
qed

lemma timedelta_minutes_Inr:
  assumes "timedelta_minutes m = Inr td"
  shows "\<exists>x. m = Fin x \<and> td = rint (x * 60000000)"
  using assms
  by (cases m) (simp_all add: timedelta_minutes_def Let_def split: if_splits)

lemma window_end_at_Inr:
  assumes "window_end_at t m = Inr w"
  shows "\<exists>td. timedelta_minutes m = Inr td \<and> w = t * 1000000 + td"
  using assms
  by (auto simp: window_end_at_def timestamp_add_def split: sum.splits if_splits)

subsection \<open>The loop of the matcher\<close>

lemma scan_signals_Inr:
  assumes "scan_signals body signals = Inr pairs" "p \<in> set pairs"
  shows "\<exists>signal \<in> set signals. \<exists>ps. body signal = Inr ps \<and> p \<in> set ps"
  using assms
  by (induction signals arbitrary: pairs) (auto split: sum.splits)

lemma scan_signals_Inl:
  assumes "scan_signals body signals = Inl e"
  shows "\<exists>signal \<in> set signals. body signal = Inl e"
  using assms
  by (induction signals) (auto split: sum.splits)

lemma scan_signals_empty:
  assumes "\<forall>signal \<in> set signals. body signal = Inr []"
  shows "scan_signals body signals = Inr []"
  using assms
  by (induction signals) simp_all

lemma signal_pairs_Inl:
  "(signal_pairs data stocks L g signal = Inl e) = (window_end_at (datetime signal) L = Inl e)"
  by (simp add: signal_pairs_def split: sum.splits)

lemma signal_pairs_mem:
  assumes "signal_pairs data stocks L g signal = Inr ps" "p \<in> set ps"
  shows "\<exists>f w. f \<in> set stocks \<and> f \<noteq> symbol signal \<and>
           window_end_at (datetime signal) L = Inr w \<and>
           follower_response data signal f w g = Some p"
  using assms
  by (fastforce simp: signal_pairs_def split: sum.splits if_splits option.splits)

lemma pairs_mem:
  assumes "analyze_leader_follower_relationships data stocks L g = Inr pairs" "p \<in> set pairs"
  obtains signal f w where "signal \<in> set data" "leader_signal signal" "f \<in> set stocks"
    "f \<noteq> symbol signal" "window_end_at (datetime signal) L = Inr w"
    "follower_response data signal f w g = Some p"
proof -
  from scan_signals_Inr[OF assms[unfolded analyze_leader_follower_relationships_def]]
  obtain signal ps where s: "signal \<in> set (filter leader_signal data)"
    and ps: "signal_pairs data stocks L g signal = Inr ps" "p \<in> set ps"
    by blast
  from signal_pairs_mem[OF ps] obtain f w where
    "f \<in> set stocks" "f \<noteq> symbol signal" "window_end_at (datetime signal) L = Inr w"
    "follower_response data signal f w g = Some p"
    by blast
  with s that show thesis by auto
qed

lemma follower_response_Some:
  fixes data :: "frow list"
  assumes "follower_response data signal f W g = Some p"
  shows "\<exists>b c. b \<in> set data \<and> symbol b = f \<and> datetime signal < datetime b \<and>
    datetime b * 1000000 \<le> W \<and>
    c \<in> set data \<and> symbol c = f \<and> datetime c \<le> datetime signal \<and>
    leader_symbol p = symbol signal \<and> follower_symbol p = f \<and>
    leader_time p = datetime signal \<and> follower_time p = datetime b \<and>
    time_lag_minutes p = of_int (datetime b - datetime signal) / 60 \<and>
    follower_base_price p = close_price c \<and>
    follower_trigger_price p = close_price b \<and>
    follower_gain_pct p = gain_pct (close_price b) (close_price c) \<and>
    fge (gain_pct (close_price b) (close_price c)) g \<and>
    (sorted (map datetime (filter (\<lambda>r. symbol r = f) data)) \<longrightarrow>
       (\<forall>c' \<in> set data. symbol c' = f \<and> datetime c' \<le> datetime signal
          \<longrightarrow> datetime c' \<le> datetime c) \<and>
       (\<forall>b' \<in> set data. symbol b' = f \<and> datetime signal < datetime b' \<and>
          datetime b' < datetime b \<longrightarrow> \<not> fge (gain_pct (close_price b') (close_price c)) g))"
proof -
  define base where "base = filter (\<lambda>r. symbol r = f \<and> datetime r \<le> datetime signal) data"
  define win where "win = filter (\<lambda>r. symbol r = f \<and> datetime r > datetime signal \<and>
                              datetime r * 1000000 \<le> W) data"
  define sg where "sg = filter (\<lambda>r. fge (gain_pct (close_price r) (close_price (last base))) g) win"
  from assms have ne: "sg \<noteq> []" "base \<noteq> []"
    by (auto simp: follower_response_def Let_def base_def win_def sg_def split: if_splits)
  from assms have p: "p = \<lparr> leader_symbol = symbol signal,
                               follower_symbol = f,
                               leader_time = datetime signal,
                               follower_time = datetime (hd sg),
                               time_lag_minutes =
                                 of_int (datetime (hd sg) - datetime signal) / 60,
                               leader_close = close_price signal,
                               leader_large_total = large_total signal,
                               leader_large_net = large_net signal,
                               leader_return_1min = fscale (return_1min signal) 100,
                               follower_base_price = close_price (last base),
                               follower_trigger_price = close_price (hd sg),
                               follower_gain_pct =
                                 gain_pct (close_price (hd sg)) (close_price (last base)),
                               is_enhanced_signal = enhanced_leader_signal signal \<rparr>"
    by (auto simp: follower_response_def Let_def base_def win_def sg_def split: if_splits)
  from ne have "hd sg \<in> set sg" by simp
  then have h: "hd sg \<in> set data" "symbol (hd sg) = f" "datetime signal < datetime (hd sg)"
     "datetime (hd sg) * 1000000 \<le> W"
     "fge (gain_pct (close_price (hd sg)) (close_price (last base))) g"
    by (auto simp: sg_def win_def)
  from ne have "last base \<in> set base" by simp
  then have l: "last base \<in> set data" "symbol (last base) = f"
     "datetime (last base) \<le> datetime signal"
    by (auto simp: base_def)
  have latest: "\<forall>c' \<in> set data. symbol c' = f \<and> datetime c' \<le> datetime signal
          \<longrightarrow> datetime c' \<le> datetime (last base)"
    if srt: "sorted (map datetime (filter (\<lambda>r. symbol r = f) data))"
  proof (intro ballI impI)
    fix c' assume "c' \<in> set data" "symbol c' = f \<and> datetime c' \<le> datetime signal"
    then have "c' \<in> set base" by (simp add: base_def)
    moreover have "sorted (map datetime base)"
      unfolding base_def by (rule sorted_symbol_filter[OF srt])
    ultimately show "datetime c' \<le> datetime (last base)"
      by (rule sorted_map_last_max[rotated])
  qed
  have first: "\<forall>b' \<in> set data. symbol b' = f \<and> datetime signal < datetime b' \<and>
          datetime b' < datetime (hd sg) \<longrightarrow>
          \<not> fge (gain_pct (close_price b') (close_price (last base))) g"
    if srt: "sorted (map datetime (filter (\<lambda>r. symbol r = f) data))"
  proof (intro ballI impI notI)
    fix b' assume b': "b' \<in> set data"
      "symbol b' = f \<and> datetime signal < datetime b' \<and> datetime b' < datetime (hd sg)"
      "fge (gain_pct (close_price b') (close_price (last base))) g"
    with h(4) have "b' \<in> set sg" by (simp add: sg_def win_def)
    moreover have "sorted (map datetime win)"
      unfolding win_def by (rule sorted_symbol_filter[OF srt])
    then have "sorted (map datetime sg)"
      unfolding sg_def by (simp only: sorted_filter)
    ultimately have "datetime (hd sg) \<le> datetime b'"
      by (rule sorted_map_hd_min[rotated])
    with b'(2) show False by simp
  qed
  show ?thesis
    by (rule exI[of _ "hd sg"], rule exI[of _ "last base"])
       (use h l latest first in \<open>simp add: p\<close>)
qed

subsection \<open>The rows of one symbol in the frame\<close>

lemma length_price_movements_symbol [simp]:
  "length (price_movements_symbol xs) = length xs"
  by (simp add: price_movements_symbol_def)

lemma nth_price_movements_symbol:
  "i < length xs \<Longrightarrow> price_movements_symbol xs ! i = movements_row xs i"
  by (simp add: price_movements_symbol_def)

lemma movements_row_bar [simp]:
  "symbol (movements_row xs i) = symbol (xs ! i)"
  "datetime (movements_row xs i) = datetime (xs ! i)"
  "close_price (movements_row xs i) = close_price (xs ! i)"
  by (simp_all add: movements_row_def Let_def)

lemma map_price_movements_symbol:
  "map symbol (price_movements_symbol xs) = map symbol xs"
  "map datetime (price_movements_symbol xs) = map datetime xs"
  "map close_price (price_movements_symbol xs) = map close_price xs"
  by (rule nth_equalityI; simp add: nth_price_movements_symbol)+

lemma flag_row_bar [simp]:
  "symbol (flag_row mm ma mpc r) = symbol r"
  "datetime (flag_row mm ma mpc r) = datetime r"
  "close_price (flag_row mm ma mpc r) = close_price r"
  "return_1min (flag_row mm ma mpc r) = return_1min r"
  by (simp_all add: flag_row_def Let_def)

lemma filter_symbol_block:
  assumes "\<forall>r \<in> set xs. symbol r = s"
  shows "filter (\<lambda>r. symbol r = f) (price_movements_symbol xs) =
           (if f = s then price_movements_symbol xs else [])"
proof -
  have "set (map symbol (price_movements_symbol xs)) = set (map symbol xs)"
    by (simp only: map_price_movements_symbol)
  with assms have "\<forall>r \<in> set (price_movements_symbol xs). symbol r = s"
    by (metis (no_types, lifting) image_eqI image_iff list.set_map)
  then show ?thesis by (auto simp: filter_empty_conv)
qed

lemma filter_calculate_price_movements:
  assumes "distinct stocks"
  shows "filter (\<lambda>r. symbol r = f) (calculate_price_movements data stocks) =
           (if f \<in> set stocks then price_movements_symbol (filter (\<lambda>r. symbol r = f) data)
            else [])"
  using assms
proof (induction stocks)
  case Nil
  then show ?case by (simp add: calculate_price_movements_def)
next
  case (Cons s stocks)
  have blk: "filter (\<lambda>r. symbol r = f) (price_movements_symbol (filter (\<lambda>r. symbol r = s) data)) =
           (if f = s then price_movements_symbol (filter (\<lambda>r. symbol r = s) data) else [])"
    by (rule filter_symbol_block) simp
  have split: "calculate_price_movements data (s # stocks) =
          price_movements_symbol (filter (\<lambda>r. symbol r = s) data) @
          calculate_price_movements data stocks"
    by (simp add: calculate_price_movements_def)
  from Cons show ?case
    by (auto simp: split blk)
qed

lemma stocks_of_props:
  "distinct (stocks_of data)" "set (stocks_of data) = symbol ` set data"
  "sorted (stocks_of data)"
  by (simp_all add: stocks_of_def)

lemma price_movements_symbol_Nil [simp]: "price_movements_symbol [] = []"
  by (simp add: price_movements_symbol_def)

lemma filter_symbol_frame:
  "filter (\<lambda>r. symbol r = f) (calculate_price_movements data (stocks_of data)) =
     price_movements_symbol (filter (\<lambda>r. symbol r = f) data)"
proof (cases "f \<in> set (stocks_of data)")
  case True
  then show ?thesis by (simp add: filter_calculate_price_movements stocks_of_props(1))
next
  case False
  then have "filter (\<lambda>r. symbol r = f) data = []"
    by (auto simp: stocks_of_props(2) filter_empty_conv)
  with False show ?thesis by (simp add: filter_calculate_price_movements stocks_of_props(1))
qed

lemma filter_symbol_identify:
  "filter (\<lambda>r. symbol r = f) (identify_leader_signals mm ma mpc data) =
     identify_leader_signals mm ma mpc (filter (\<lambda>r. symbol r = f) data)"
  by (simp add: identify_leader_signals_def filter_map comp_def)

lemma filter_symbol_analysis_frame:
  "filter (\<lambda>r. symbol r = f) (analysis_frame mm ma mpc raw) =
     identify_leader_signals mm ma mpc
       (price_movements_symbol (filter (\<lambda>r. symbol r = f) (load_data raw)))"
  by (simp add: analysis_frame_def Let_def filter_symbol_identify filter_symbol_frame)

lemma sorted_by_symbol_time:
  fixes xs :: "('a row_scheme) list"
  assumes "sorted (map (\<lambda>r. (symbol r, datetime r)) xs)"
  shows "sorted (map datetime (filter (\<lambda>r. symbol r = f) xs))"
  using assms
  by (induction xs) (auto simp: less_eq_prod_def)

lemma sorted_load_data:
  "sorted (map (\<lambda>r. (symbol r, datetime r)) (load_data raw))"
  by (simp add: load_data_def)

lemma sorted_analysis_frame:
  "sorted (map datetime (filter (\<lambda>r. symbol r = f) (analysis_frame mm ma mpc raw)))"
proof -
  have "map datetime (filter (\<lambda>r. symbol r = f) (analysis_frame mm ma mpc raw)) =
        map datetime (filter (\<lambda>r. symbol r = f) (load_data raw))"
    by (simp add: filter_symbol_analysis_frame identify_leader_signals_def comp_def
          map_price_movements_symbol)
  then show ?thesis
    by (simp only: sorted_by_symbol_time[OF sorted_load_data])
qed

subsection \<open>The frame keeps the loaded rows and their order\<close>

text \<open>
  \<^verbatim>\<open>calculate_price_movements\<close> writes the derived columns beside the columns of the
  loaded frame: dropping them gives the loaded frame back, row by row.
\<close>

lemma filter_min_key_split:
  fixes k :: "'a \<Rightarrow> 'b::linorder"
  assumes "sorted (map k xs)" "\<forall>x \<in> set xs. a \<le> k x"
  shows "filter (\<lambda>x. k x = a) xs @ filter (\<lambda>x. k x \<noteq> a) xs = xs"
  using assms
proof (induction xs)
  case Nil
  then show ?case by simp
next
  case (Cons x xs)
  show ?case
  proof (cases "k x = a")
    case True
    with Cons show ?thesis by simp
  next
    case False
    with Cons.prems have "\<forall>y \<in> set (x # xs). k y \<noteq> a" by fastforce
    then have "filter (\<lambda>x. k x = a) (x # xs) = []" "filter (\<lambda>x. k x \<noteq> a) (x # xs) = x # xs"
      by (simp_all add: filter_empty_conv filter_id_conv)
    then show ?thesis by simp
  qed
qed

lemma concat_filter_sorted_keys:
  fixes k :: "'a \<Rightarrow> 'b::linorder"
  assumes "sorted (map k xs)" "sorted ks" "distinct ks" "k ` set xs \<subseteq> set ks"
  shows "concat (map (\<lambda>s. filter (\<lambda>x. k x = s) xs) ks) = xs"
  using assms
proof (induction ks arbitrary: xs)
  case Nil
  then show ?case by simp
next
  case (Cons a ks)
  let ?rest = "filter (\<lambda>x. k x \<noteq> a) xs"
  have min: "\<forall>x \<in> set xs. a \<le> k x"
    using Cons.prems(2,4) by auto
  have eq1: "map (\<lambda>s. filter (\<lambda>x. k x = s) xs) ks = map (\<lambda>s. filter (\<lambda>x. k x = s) ?rest) ks"
  proof (rule map_cong[OF refl])
    fix s assume "s \<in> set ks"
    with Cons.prems(3) have "s \<noteq> a" by auto
    then show "filter (\<lambda>x. k x = s) xs = filter (\<lambda>x. k x = s) ?rest"
      by (auto intro: filter_cong)
  qed
  have eq2: "concat (map (\<lambda>s. filter (\<lambda>x. k x = s) ?rest) ks) = ?rest"
  proof (rule Cons.IH)
    show "sorted (map k ?rest)" using Cons.prems(1) by (rule sorted_filter)
    show "sorted ks" "distinct ks" using Cons.prems(2,3) by simp_all
    show "k ` set ?rest \<subseteq> set ks" using Cons.prems(4) by auto
  qed
  show ?case
    unfolding list.map concat.simps eq1 eq2
    by (rule filter_min_key_split[OF Cons.prems(1) min])
qed

lemma truncate_movements_row: "row.truncate (movements_row xs i) = xs ! i"
  by (simp add: movements_row_def Let_def row.defs bar.defs)

lemma truncate_price_movements_symbol:
  "map row.truncate (price_movements_symbol xs) = xs"
  by (rule nth_equalityI) (simp_all add: nth_price_movements_symbol truncate_movements_row)

lemma sorted_symbol_of_sorted_key:
  fixes xs :: "row list"
  assumes "sorted (map (\<lambda>r. (symbol r, datetime r)) xs)"
  shows "sorted (map symbol xs)"
  using assms by (induction xs) (auto simp: less_eq_prod_def)

lemma calculate_price_movements_rows:
  assumes "sorted (map symbol data)"
  shows "map row.truncate (calculate_price_movements data (stocks_of data)) = data"
proof -
  have "map row.truncate (calculate_price_movements data (stocks_of data)) =
        concat (map (\<lambda>s. filter (\<lambda>r. symbol r = s) data) (stocks_of data))"
    by (simp add: calculate_price_movements_def map_concat comp_def
          truncate_price_movements_symbol)
  also have "\<dots> = data"
    by (rule concat_filter_sorted_keys[OF assms])
       (simp_all add: stocks_of_props)
  finally show ?thesis .
qed

lemma frame_keeps_loaded_rows:
  "map row.truncate
     (calculate_price_movements (load_data raw) (stocks_of (load_data raw))) = load_data raw"
  by (rule calculate_price_movements_rows)
     (rule sorted_symbol_of_sorted_key[OF sorted_load_data])

subsection \<open>The sample run, evaluated\<close>

lemma example_pairs:
  "analysis_pairs (13 / 10) 1000000 (3 / 1000) (Fin 30) (1 / 2) example_bars =
     Inr [pair_AB, pair_AC, pair_CB]"
  by code_simp

subsection \<open>The matcher records the first passage\<close>

text \<open>
  C1. Every pair of a run records the earliest bar of the follower in the window
  \<open>(leader_time, leader_time + max_lag_minutes]\<close> whose gain over the base price is at
  least \<open>min_gain\<close>: the bar exists in the frame, lies in the window (whose length is the
  duration \<open>timedelta(minutes=max_lag_minutes)\<close>, that is \<open>60 * n\<close> seconds for a whole
  number \<open>n\<close> of minutes), its gain is the recorded \<open>follower_gain_pct\<close> and reaches the
  floor, and no bar of the follower strictly between the leader time and the follower
  time reaches the floor.
\<close>

theorem first_passage:
  assumes "analysis_pairs mm ma mpc L g raw = Inr pairs" and "p \<in> set pairs"
  shows "\<exists>td. timedelta_minutes L = Inr td \<and>
         (\<exists>b \<in> set (analysis_frame mm ma mpc raw).
           symbol b = follower_symbol p \<and> datetime b = follower_time p \<and>
           leader_time p < datetime b \<and>
           datetime b * 1000000 \<le> leader_time p * 1000000 + td \<and>
           (\<forall>n. L = Fin (of_int n) \<longrightarrow> datetime b \<le> leader_time p + 60 * n) \<and>
           follower_gain_pct p = gain_pct (close_price b) (follower_base_price p) \<and>
           fge (follower_gain_pct p) g \<and>
           (\<forall>b' \<in> set (analysis_frame mm ma mpc raw).
              symbol b' = follower_symbol p \<and> leader_time p < datetime b' \<and>
              datetime b' < follower_time p \<longrightarrow>
              \<not> fge (gain_pct (close_price b') (follower_base_price p)) g))"
proof -
  let ?F = "analysis_frame mm ma mpc raw"
  from assms obtain signal f w where
    w: "window_end_at (datetime signal) L = Inr w"
    and resp: "follower_response ?F signal f w g = Some p"
    unfolding analysis_pairs_def by (rule pairs_mem)
  from window_end_at_Inr[OF w] obtain td where
    td: "timedelta_minutes L = Inr td" "w = datetime signal * 1000000 + td"
    by blast
  have srt: "sorted (map datetime (filter (\<lambda>r. symbol r = f) ?F))"
    by (rule sorted_analysis_frame)
  from follower_response_Some[OF resp] srt obtain b c :: frow where
    b: "b \<in> set ?F" "symbol b = f" "datetime signal < datetime b"
       "datetime b * 1000000 \<le> w"
    and p: "follower_symbol p = f" "leader_time p = datetime signal"
       "follower_time p = datetime b" "follower_base_price p = close_price c"
       "follower_gain_pct p = gain_pct (close_price b) (close_price c)"
       "fge (gain_pct (close_price b) (close_price c)) g"
    and first: "\<forall>b' \<in> set ?F. symbol b' = f \<and> datetime signal < datetime b' \<and>
          datetime b' < datetime b \<longrightarrow> \<not> fge (gain_pct (close_price b') (close_price c)) g"
    by blast
  have whole: "datetime b \<le> leader_time p + 60 * n" if "L = Fin (of_int n)" for n
  proof -
    from timedelta_minutes_Inr[OF td(1)] that have "td = rint (of_int n * 60000000)"
      by auto
    also have "(of_int n * 60000000 :: rat) = of_int (n * 60000000)" by simp
    finally have "td = n * 60000000" by (simp only: rint_of_int)
    with b(4) td(2) p(2) show ?thesis by simp
  qed
  have "\<exists>b \<in> set ?F.
           symbol b = follower_symbol p \<and> datetime b = follower_time p \<and>
           leader_time p < datetime b \<and>
           datetime b * 1000000 \<le> leader_time p * 1000000 + td \<and>
           (\<forall>n. L = Fin (of_int n) \<longrightarrow> datetime b \<le> leader_time p + 60 * n) \<and>
           follower_gain_pct p = gain_pct (close_price b) (follower_base_price p) \<and>
           fge (follower_gain_pct p) g \<and>
           (\<forall>b' \<in> set ?F.
              symbol b' = follower_symbol p \<and> leader_time p < datetime b' \<and>
              datetime b' < follower_time p \<longrightarrow>
              \<not> fge (gain_pct (close_price b') (follower_base_price p)) g)"
    by (rule bexI[of _ b]) (use b p first whole td(2) in simp_all)
  with td(1) show ?thesis by blast
qed

text \<open>
  In the sample run the pair of \<^verbatim>\<open>A\<close> and \<^verbatim>\<open>B\<close> records 09:18 and the gain 0.6, although
  the bar of 09:25, also in the window, gains more.
\<close>

theorem first_passage_witness:
  "analysis_pairs (13 / 10) 1000000 (3 / 1000) (Fin 30) (1 / 2) example_bars =
     Inr [pair_AB, pair_AC, pair_CB] \<and>
   timedelta_minutes (Fin 30) = Inr 1800000000 \<and>
   (\<exists>b \<in> set (analysis_frame (13 / 10) 1000000 (3 / 1000) example_bars).
      symbol b = ''B'' \<and> datetime b = 33480 \<and>
      33000 < datetime b \<and> datetime b \<le> 33000 + 60 * 30 \<and>
      gain_pct (close_price b) 100 = Fin (3 / 5) \<and> fge (Fin (3 / 5)) (1 / 2) \<and>
      (\<forall>b' \<in> set (analysis_frame (13 / 10) 1000000 (3 / 1000) example_bars).
         symbol b' = ''B'' \<and> 33000 < datetime b' \<and> datetime b' < 33480 \<longrightarrow>
         \<not> fge (gain_pct (close_price b') 100) (1 / 2)))"
proof -
  let ?F = "analysis_frame (13 / 10) 1000000 (3 / 1000) example_bars"
  have mem: "pair_AB \<in> set [pair_AB, pair_AC, pair_CB]" by simp
  have td: "timedelta_minutes (Fin 30) = Inr 1800000000" by code_simp
  from first_passage[OF example_pairs mem] obtain b :: frow where
    b: "b \<in> set ?F" "symbol b = follower_symbol pair_AB" "datetime b = follower_time pair_AB"
       "leader_time pair_AB < datetime b"
       "follower_gain_pct pair_AB = gain_pct (close_price b) (follower_base_price pair_AB)"
       "fge (follower_gain_pct pair_AB) (1 / 2)"
    and whole: "\<forall>n. Fin 30 = Fin (of_int n) \<longrightarrow> datetime b \<le> leader_time pair_AB + 60 * n"
    and first: "\<forall>b' \<in> set ?F.
              symbol b' = follower_symbol pair_AB \<and> leader_time pair_AB < datetime b' \<and>
              datetime b' < follower_time pair_AB \<longrightarrow>
              \<not> fge (gain_pct (close_price b') (follower_base_price pair_AB)) (1 / 2)"
    by blast
  have "Fin 30 = Fin (of_int 30)" by simp
  then have w: "datetime b \<le> leader_time pair_AB + 60 * 30" by (rule whole[rule_format])
  have v: "follower_symbol pair_AB = ''B''" "follower_time pair_AB = 33480"
    "leader_time pair_AB = 33000" "follower_base_price pair_AB = 100"
    "follower_gain_pct pair_AB = Fin (3 / 5)"
    by (simp_all add: pair_AB_def)
  have "\<exists>b \<in> set ?F.
      symbol b = ''B'' \<and> datetime b = 33480 \<and>
      33000 < datetime b \<and> datetime b \<le> 33000 + 60 * 30 \<and>
      gain_pct (close_price b) 100 = Fin (3 / 5) \<and> fge (Fin (3 / 5)) (1 / 2) \<and>
      (\<forall>b' \<in> set ?F.
         symbol b' = ''B'' \<and> 33000 < datetime b' \<and> datetime b' < 33480 \<longrightarrow>
         \<not> fge (gain_pct (close_price b') 100) (1 / 2))"
    using b w first unfolding v by (intro bexI[of _ b] conjI) simp_all
  with example_pairs td show ?thesis by blast
qed

subsection \<open>The window bounds the time lag\<close>




subsection \<open>The base price\<close>

lemma follower_response_None:
  assumes "\<forall>c \<in> set data. symbol c = f \<longrightarrow> datetime signal < datetime c"
  shows "follower_response data signal f W g = None"
proof -
  have "filter (\<lambda>r. symbol r = f \<and> datetime r \<le> datetime signal) data = []"
    using assms by (auto simp: filter_empty_conv)
  then show ?thesis by (simp add: follower_response_def)
qed

lemma concat_skip:
  assumes "h f = []"
  shows "concat (map h stocks) = concat (map h (removeAll f stocks))"
  using assms by (induction stocks) auto

lemma signal_pairs_skip:
  assumes "\<forall>W. follower_response data signal f W g = None"
  shows "signal_pairs data stocks L g signal = signal_pairs data (removeAll f stocks) L g signal"
proof (cases "window_end_at (datetime signal) L")
  case (Inl e)
  then show ?thesis by (simp add: signal_pairs_def)
next
  case (Inr w)
  let ?h = "\<lambda>follower_symbol.
              if follower_symbol = symbol signal then []
              else (case follower_response data signal follower_symbol w g of
                      None \<Rightarrow> []
                    | Some pair \<Rightarrow> [pair])"
  from assms have "?h f = []" by simp
  then have "concat (map ?h stocks) = concat (map ?h (removeAll f stocks))"
    by (rule concat_skip)
  with Inr show ?thesis by (simp add: signal_pairs_def)
qed

text \<open>
  C4. For a signal at time \<open>t\<close> and a follower \<open>f\<close>, the base price of the
  combination is the close of the latest bar of \<open>f\<close> with a timestamp at most \<open>t\<close>;
  when \<open>f\<close> has no such bar the combination yields no pair, and the outcome of the loop
  body for the signal is the one computed without \<open>f\<close>.
\<close>

theorem base_price_latest_bar:
  "(follower_response (analysis_frame mm ma mpc raw) signal f W g = Some p \<longrightarrow>
      (\<exists>c \<in> set (analysis_frame mm ma mpc raw).
          symbol c = f \<and> datetime c \<le> datetime signal \<and>
          follower_base_price p = close_price c \<and>
          (\<forall>c' \<in> set (analysis_frame mm ma mpc raw).
              symbol c' = f \<and> datetime c' \<le> datetime signal \<longrightarrow>
              datetime c' \<le> datetime c))) \<and>
   ((\<forall>c \<in> set (analysis_frame mm ma mpc raw). symbol c = f \<longrightarrow> datetime signal < datetime c) \<longrightarrow>
      follower_response (analysis_frame mm ma mpc raw) signal f W g = None \<and>
      signal_pairs (analysis_frame mm ma mpc raw) stocks L g signal =
        signal_pairs (analysis_frame mm ma mpc raw) (removeAll f stocks) L g signal)"
proof (intro conjI impI)
  let ?F = "analysis_frame mm ma mpc raw"
  assume resp: "follower_response ?F signal f W g = Some p"
  have srt: "sorted (map datetime (filter (\<lambda>r. symbol r = f) ?F))"
    by (rule sorted_analysis_frame)
  from follower_response_Some[OF resp] srt obtain c :: frow where
    c: "c \<in> set ?F" "symbol c = f" "datetime c \<le> datetime signal"
       "follower_base_price p = close_price c"
       "\<forall>c' \<in> set ?F. symbol c' = f \<and> datetime c' \<le> datetime signal
          \<longrightarrow> datetime c' \<le> datetime c"
    by blast
  show "\<exists>c \<in> set ?F. symbol c = f \<and> datetime c \<le> datetime signal \<and>
          follower_base_price p = close_price c \<and>
          (\<forall>c' \<in> set ?F. symbol c' = f \<and> datetime c' \<le> datetime signal \<longrightarrow>
              datetime c' \<le> datetime c)"
    by (rule bexI[of _ c]) (use c in simp_all)
next
  let ?F = "analysis_frame mm ma mpc raw"
  assume none: "\<forall>c \<in> set ?F. symbol c = f \<longrightarrow> datetime signal < datetime c"
  then show "follower_response ?F signal f W g = None"
    by (rule follower_response_None)
  from none have "\<forall>W. follower_response ?F signal f W g = None"
    by (simp add: follower_response_None)
  then show "signal_pairs ?F stocks L g signal = signal_pairs ?F (removeAll f stocks) L g signal"
    by (rule signal_pairs_skip)
qed

text \<open>
  In the sample run the base price of \<^verbatim>\<open>B\<close> for the signal of \<^verbatim>\<open>A\<close> at 09:10 is the
  close of 09:08, and \<^verbatim>\<open>D\<close>, which has no bar before 09:20, yields no pair.
\<close>

theorem base_price_latest_bar_witness:
  "follower_response example_frame (example_frame ! 1) ''B'' 34800000000 (1 / 2) = Some pair_AB \<and>
   window_end_at (datetime (example_frame ! 1)) (Fin 30) = Inr 34800000000 \<and>
   (\<exists>c \<in> set example_frame.
       symbol c = ''B'' \<and> datetime c \<le> datetime (example_frame ! 1) \<and>
       follower_base_price pair_AB = close_price c \<and>
       (\<forall>c' \<in> set example_frame.
           symbol c' = ''B'' \<and> datetime c' \<le> datetime (example_frame ! 1) \<longrightarrow>
           datetime c' \<le> datetime c)) \<and>
   \<not> (\<exists>c \<in> set example_frame. symbol c = ''D'' \<and> datetime c \<le> datetime (example_frame ! 1)) \<and>
   follower_response example_frame (example_frame ! 1) ''D'' 34800000000 (1 / 2) = None"
proof -
  have some: "follower_response example_frame (example_frame ! 1) ''B'' 34800000000 (1 / 2) =
                Some pair_AB"
    by code_simp
  have w: "window_end_at (datetime (example_frame ! 1)) (Fin 30) = Inr 34800000000"
    by code_simp
  have none: "\<forall>c \<in> set example_frame. symbol c = ''D'' \<longrightarrow> datetime (example_frame ! 1) < datetime c"
    by code_simp
  note inst = base_price_latest_bar[where mm = "13 / 10" and ma = 1000000 and mpc = "3 / 1000"
      and raw = example_bars and signal = "example_frame ! 1" and W = 34800000000
      and g = "1 / 2", folded example_frame_def]
  from inst[where f = "''B''" and p = pair_AB] some
  have a: "\<exists>c \<in> set example_frame.
       symbol c = ''B'' \<and> datetime c \<le> datetime (example_frame ! 1) \<and>
       follower_base_price pair_AB = close_price c \<and>
       (\<forall>c' \<in> set example_frame.
           symbol c' = ''B'' \<and> datetime c' \<le> datetime (example_frame ! 1) \<longrightarrow>
           datetime c' \<le> datetime c)"
    by blast
  from inst[where f = "''D''"] none
  have b: "follower_response example_frame (example_frame ! 1) ''D'' 34800000000 (1 / 2) = None"
    by blast
  from none have c: "\<not> (\<exists>c \<in> set example_frame. symbol c = ''D'' \<and>
                          datetime c \<le> datetime (example_frame ! 1))"
    by fastforce
  from some w a c b show ?thesis by blast
qed

subsection \<open>The first bar of a symbol\<close>

lemma return_1min_first [simp]: "return_1min (movements_row xs 0) = NaN"
  by (simp add: movements_row_def Let_def pct_change_def)

lemma leader_signal_flag_row:
  "leader_signal (flag_row mm ma mpc r) =
     (large_total r > large_total_ma30 r * mm \<and> large_total r > ma \<and> large_net r > 0 \<and>
      fgt (return_1min r) mpc \<and> (is_daily_high r \<or> is_30min_high r))"
  by (simp add: flag_row_def Let_def)

lemma flag_row_fields [simp]:
  "large_total (flag_row mm ma mpc r) = large_total r"
  "large_total_ma30 (flag_row mm ma mpc r) = large_total_ma30 r"
  "large_net (flag_row mm ma mpc r) = large_net r"
  "is_daily_high (flag_row mm ma mpc r) = is_daily_high r"
  "is_30min_high (flag_row mm ma mpc r) = is_30min_high r"
  by (simp_all add: flag_row_def Let_def)

text \<open>
  C9. For every symbol of the frame and every setting of the parameters, the first row
  of the symbol (its earliest bar) has an undefined \<open>return_1min\<close>, which fails the
  comparison with \<open>min_price_change\<close>, and is not flagged as a leader signal.
\<close>

theorem first_bar_never_flagged:
  assumes "s \<in> set (stocks_of (load_data raw))"
  shows "filter (\<lambda>r. symbol r = s) (analysis_frame mm ma mpc raw) \<noteq> [] \<and>
         datetime (hd (filter (\<lambda>r. symbol r = s) (analysis_frame mm ma mpc raw))) =
           datetime (hd (filter (\<lambda>r. symbol r = s) (load_data raw))) \<and>
         return_1min (hd (filter (\<lambda>r. symbol r = s) (analysis_frame mm ma mpc raw))) = NaN \<and>
         \<not> leader_signal (hd (filter (\<lambda>r. symbol r = s) (analysis_frame mm ma mpc raw)))"
proof -
  define S where "S = filter (\<lambda>r. symbol r = s) (load_data raw)"
  from assms have ne: "S \<noteq> []"
    by (auto simp: S_def stocks_of_props(2) filter_empty_conv)
  have F: "filter (\<lambda>r. symbol r = s) (analysis_frame mm ma mpc raw) =
             map (flag_row mm ma mpc) (price_movements_symbol S)"
    by (simp add: filter_symbol_analysis_frame S_def identify_leader_signals_def)
  from ne have pne: "price_movements_symbol S \<noteq> []"
    by (simp add: price_movements_symbol_def)
  have hd0: "hd (price_movements_symbol S) = movements_row S 0"
    using ne nth_price_movements_symbol[of 0 S] pne by (simp add: hd_conv_nth)
  have hdS: "hd S = S ! 0" using ne by (simp add: hd_conv_nth)
  show ?thesis
    using pne by (simp add: F hd_map hd0 hdS leader_signal_flag_row flip: S_def)
qed

theorem first_bar_never_flagged_witness:
  "''A'' \<in> set (stocks_of (load_data example_bars)) \<and>
   datetime (hd (filter (\<lambda>r. symbol r = ''A'')
                   (analysis_frame (13 / 10) 1000000 (3 / 1000) example_bars))) = 32940 \<and>
   \<not> leader_signal (hd (filter (\<lambda>r. symbol r = ''A'')
                   (analysis_frame (13 / 10) 1000000 (3 / 1000) example_bars)))"
proof -
  have mem: "''A'' \<in> set (stocks_of (load_data example_bars))" by code_simp
  have dt: "datetime (hd (filter (\<lambda>r. symbol r = ''A'') (load_data example_bars))) = 32940"
    by code_simp
  show ?thesis
    using first_bar_never_flagged[OF mem, of "13 / 10" 1000000 "3 / 1000"] mem dt by simp
qed

subsection \<open>The signal predicate\<close>

lemma identify_flags:
  assumes "s \<in> set (identify_leader_signals mm ma mpc sdata)"
  shows "leader_signal s =
        (large_total s > large_total_ma30 s * mm \<and> large_total s > ma \<and> large_net s > 0 \<and>
         fgt (return_1min s) mpc \<and> (is_daily_high s \<or> is_30min_high s))"
proof -
  from assms obtain r where "s = flag_row mm ma mpc r"
    by (auto simp: identify_leader_signals_def)
  then show ?thesis by (simp add: leader_signal_flag_row)
qed

lemma leader_signals_set:
  "set (leader_signals (identify_leader_signals mm ma mpc sdata)) =
     {s \<in> set (identify_leader_signals mm ma mpc sdata).
        large_total s > large_total_ma30 s * mm \<and> large_total s > ma \<and> large_net s > 0 \<and>
        fgt (return_1min s) mpc \<and> (is_daily_high s \<or> is_30min_high s)}"
proof -
  have "\<forall>s \<in> set (identify_leader_signals mm ma mpc sdata). leader_signal s =
        (large_total s > large_total_ma30 s * mm \<and> large_total s > ma \<and> large_net s > 0 \<and>
         fgt (return_1min s) mpc \<and> (is_daily_high s \<or> is_30min_high s))"
    using identify_flags by blast
  then show ?thesis
    unfolding leader_signals_def set_filter by blast
qed

text \<open>
  C2. A row of the frame is flagged as a leader signal exactly when the five conjuncts
  hold of it, and the stored signal rows are exactly the rows of the frame on whose
  fields the five conjuncts hold.
\<close>

theorem leader_signal_iff_predicate:
  "(\<forall>s \<in> set (identify_leader_signals money_multiplier min_amount min_price_change data).
      leader_signal s =
        (large_total s > large_total_ma30 s * money_multiplier \<and>
         large_total s > min_amount \<and>
         large_net s > 0 \<and>
         fgt (return_1min s) min_price_change \<and>
         (is_daily_high s \<or> is_30min_high s))) \<and>
   set (leader_signals (identify_leader_signals money_multiplier min_amount min_price_change data)) =
     {s \<in> set (identify_leader_signals money_multiplier min_amount min_price_change data).
        large_total s > large_total_ma30 s * money_multiplier \<and>
        large_total s > min_amount \<and>
        large_net s > 0 \<and>
        fgt (return_1min s) min_price_change \<and>
        (is_daily_high s \<or> is_30min_high s)}"
proof (intro conjI ballI)
  fix s
  assume "s \<in> set (identify_leader_signals money_multiplier min_amount min_price_change data)"
  then show "leader_signal s =
        (large_total s > large_total_ma30 s * money_multiplier \<and>
         large_total s > min_amount \<and>
         large_net s > 0 \<and>
         fgt (return_1min s) min_price_change \<and>
         (is_daily_high s \<or> is_30min_high s))"
    by (rule identify_flags)
next
  show "set (leader_signals
               (identify_leader_signals money_multiplier min_amount min_price_change data)) =
     {s \<in> set (identify_leader_signals money_multiplier min_amount min_price_change data).
        large_total s > large_total_ma30 s * money_multiplier \<and>
        large_total s > min_amount \<and>
        large_net s > 0 \<and>
        fgt (return_1min s) min_price_change \<and>
        (is_daily_high s \<or> is_30min_high s)}"
    by (rule leader_signals_set)
qed

text \<open>The row of \<^verbatim>\<open>A\<close> at 09:10 is a signal of the sample run.\<close>

theorem leader_signal_iff_predicate_witness:
  "example_frame ! 1 \<in> set (leader_signals example_frame) \<and>
   large_total (example_frame ! 1) = 3000000 \<and>
   large_total_ma30 (example_frame ! 1) = 2000000 \<and>
   large_total (example_frame ! 1) > large_total_ma30 (example_frame ! 1) * (13 / 10) \<and>
   large_total (example_frame ! 1) > 1000000 \<and>
   large_net (example_frame ! 1) > 0 \<and>
   fgt (return_1min (example_frame ! 1)) (3 / 1000) \<and>
   (is_daily_high (example_frame ! 1) \<or> is_30min_high (example_frame ! 1))"
proof -
  have fr: "example_frame =
      identify_leader_signals (13 / 10) 1000000 (3 / 1000)
        (calculate_price_movements (load_data example_bars) (stocks_of (load_data example_bars)))"
    by (simp add: example_frame_def analysis_frame_def Let_def)
  have mem: "example_frame ! 1 \<in> set (leader_signals example_frame)"
    by code_simp
  have vals: "large_total (example_frame ! 1) = 3000000"
    "large_total_ma30 (example_frame ! 1) = 2000000"
    by code_simp+
  from leader_signal_iff_predicate[where money_multiplier = "13 / 10" and min_amount = 1000000
      and min_price_change = "3 / 1000"
      and data = "calculate_price_movements (load_data example_bars) (stocks_of (load_data example_bars))",
      folded fr] mem
  have "large_total (example_frame ! 1) > large_total_ma30 (example_frame ! 1) * (13 / 10) \<and>
   large_total (example_frame ! 1) > 1000000 \<and>
   large_net (example_frame ! 1) > 0 \<and>
   fgt (return_1min (example_frame ! 1)) (3 / 1000) \<and>
   (is_daily_high (example_frame ! 1) \<or> is_30min_high (example_frame ! 1))"
    by blast
  with mem vals show ?thesis by blast
qed

subsection \<open>Trading hours\<close>

lemma trading_mask_minutes:
  "trading_mask t =
     (9 * 60 + 1 \<le> 60 * dt_hour t + dt_minute t \<and> 60 * dt_hour t + dt_minute t \<le> 13 * 60 + 30)"
proof -
  have "0 \<le> dt_minute t" "dt_minute t < 60"
    by (simp_all add: dt_minute_def)
  then show ?thesis
    unfolding trading_mask_def by arith
qed

lemma set_load_data:
  "set (load_data raw) = add_large ` {b \<in> set raw. trading_mask (datetime b)}"
  by (auto simp: load_data_def)

lemma add_large_bar [simp]:
  "symbol (add_large b) = symbol b" "datetime (add_large b) = datetime b"
  "close_price (add_large b) = close_price b"
  by (simp_all add: add_large_def)

lemma frame_row_in_data:
  assumes "r \<in> set (analysis_frame mm ma mpc raw)"
  shows "\<exists>d \<in> set (load_data raw). symbol d = symbol r \<and> datetime d = datetime r \<and>
           close_price d = close_price r"
proof -
  let ?S = "filter (\<lambda>x. symbol x = symbol r) (load_data raw)"
  let ?k = "\<lambda>x. (symbol x, datetime x, close_price x)"
  from assms have "r \<in> set (filter (\<lambda>x. symbol x = symbol r) (analysis_frame mm ma mpc raw))"
    by simp
  then have "r \<in> set (map (flag_row mm ma mpc) (price_movements_symbol ?S))"
    by (simp only: filter_symbol_analysis_frame identify_leader_signals_def)
  then have "?k r \<in> set (map ?k (map (flag_row mm ma mpc) (price_movements_symbol ?S)))"
    by (simp only: set_map) (rule imageI)
  also have "map ?k (map (flag_row mm ma mpc) (price_movements_symbol ?S)) = map ?k ?S"
    by (rule nth_equalityI) (simp_all add: nth_price_movements_symbol)
  finally obtain d where "d \<in> set ?S" "?k d = ?k r" by auto
  then show ?thesis by auto
qed

lemma frame_trading_hours:
  assumes "r \<in> set (analysis_frame mm ma mpc raw)"
  shows "trading_mask (datetime r)"
proof -
  from frame_row_in_data[OF assms] obtain d where
    "d \<in> set (load_data raw)" "datetime d = datetime r" by blast
  then show ?thesis by (auto simp: set_load_data)
qed

text \<open>
  C10. \<open>load_data\<close> keeps exactly the bars whose time of day lies between 09:01 and 13:30
  inclusive, before anything is derived from them; every row of the frame, every
  leader signal, and the leader time and follower time of every pair lie in these hours.
\<close>

theorem trading_hours_only:
  "set (load_data raw) = add_large ` {b \<in> set raw. trading_mask (datetime b)} \<and>
   trading_mask t =
     (9 * 60 + 1 \<le> 60 * dt_hour t + dt_minute t \<and> 60 * dt_hour t + dt_minute t \<le> 13 * 60 + 30) \<and>
   (\<forall>r \<in> set (analysis_frame mm ma mpc raw). trading_mask (datetime r)) \<and>
   (\<forall>s \<in> set (leader_signals (analysis_frame mm ma mpc raw)). trading_mask (datetime s)) \<and>
   (\<forall>pairs. analysis_pairs mm ma mpc L g raw = Inr pairs \<longrightarrow>
      (\<forall>p \<in> set pairs. trading_mask (leader_time p) \<and> trading_mask (follower_time p)))"
proof (intro conjI ballI allI impI)
  show "set (load_data raw) = add_large ` {b \<in> set raw. trading_mask (datetime b)}"
    by (rule set_load_data)
  show "trading_mask t =
     (9 * 60 + 1 \<le> 60 * dt_hour t + dt_minute t \<and> 60 * dt_hour t + dt_minute t \<le> 13 * 60 + 30)"
    by (rule trading_mask_minutes)
next
  fix r assume "r \<in> set (analysis_frame mm ma mpc raw)"
  then show "trading_mask (datetime r)" by (rule frame_trading_hours)
next
  fix s assume "s \<in> set (leader_signals (analysis_frame mm ma mpc raw))"
  then have "s \<in> set (analysis_frame mm ma mpc raw)" by (simp add: leader_signals_def)
  then show "trading_mask (datetime s)" by (rule frame_trading_hours)
next
  fix pairs p
  assume run: "analysis_pairs mm ma mpc L g raw = Inr pairs" and p: "p \<in> set pairs"
  let ?F = "analysis_frame mm ma mpc raw"
  from run p obtain signal f w where
    sg: "signal \<in> set ?F" and resp: "follower_response ?F signal f w g = Some p"
    unfolding analysis_pairs_def by (rule pairs_mem)
  from follower_response_Some[OF resp] obtain b :: frow where
    b: "b \<in> set ?F" "leader_time p = datetime signal" "follower_time p = datetime b"
    by blast
  from sg b show "trading_mask (leader_time p)" by (simp add: frame_trading_hours)
  from sg b show "trading_mask (follower_time p)" by (simp add: frame_trading_hours)
qed

text \<open>The bar of 09:00 of the sample is dropped; the pair of \<^verbatim>\<open>A\<close> and \<^verbatim>\<open>B\<close> lies at
  09:10 and 09:18.\<close>

theorem trading_hours_only_witness:
  "mk_bar ''B'' 9 0 99 0 0 \<in> set example_bars \<and>
   \<not> trading_mask (datetime (mk_bar ''B'' 9 0 99 0 0)) \<and>
   add_large (mk_bar ''B'' 9 0 99 0 0) \<notin> set (load_data example_bars) \<and>
   analysis_pairs (13 / 10) 1000000 (3 / 1000) (Fin 30) (1 / 2) example_bars =
     Inr [pair_AB, pair_AC, pair_CB] \<and>
   trading_mask (leader_time pair_AB) \<and> trading_mask (follower_time pair_AB)"
proof -
  note inst = trading_hours_only[where raw = example_bars and mm = "13 / 10" and ma = 1000000
      and mpc = "3 / 1000" and L = "Fin 30" and g = "1 / 2"]
  have mem: "pair_AB \<in> set [pair_AB, pair_AC, pair_CB]" by simp
  have b: "mk_bar ''B'' 9 0 99 0 0 \<in> set example_bars" by (simp add: example_bars_def)
  have m: "\<not> trading_mask (datetime (mk_bar ''B'' 9 0 99 0 0))" by code_simp
  have o: "add_large (mk_bar ''B'' 9 0 99 0 0) \<notin> set (load_data example_bars)" by code_simp
  from inst example_pairs mem
  have "trading_mask (leader_time pair_AB) \<and> trading_mask (follower_time pair_AB)"
    by blast
  with example_pairs b m o show ?thesis by blast
qed

subsection \<open>What a derived column depends on\<close>

lemma take_Suc_nth_eq:
  assumes "take (Suc i) xs = take (Suc i) ys" "j \<le> i"
  shows "xs ! j = ys ! j"
proof -
  have "xs ! j = take (Suc i) xs ! j" using assms(2) by simp
  also have "\<dots> = take (Suc i) ys ! j" by (simp only: assms(1))
  also have "\<dots> = ys ! j" using assms(2) by simp
  finally show ?thesis .
qed

lemma pct_change_prefix:
  assumes "take (Suc i) xs = take (Suc i) ys" "i < length xs" "i < length ys"
  shows "pct_change k (map f xs) i = pct_change k (map f ys) i"
proof -
  have "xs ! i = ys ! i" "xs ! (i - k) = ys ! (i - k)"
    using assms(1) by (auto intro: take_Suc_nth_eq)
  moreover have "i - k < length xs" "i - k < length ys" using assms by simp_all
  ultimately show ?thesis using assms by (simp add: pct_change_def)
qed

lemma rolling_prefix:
  assumes "take (Suc i) xs = take (Suc i) ys"
  shows "rolling w (map f xs) i = rolling w (map f ys) i"
  using assms by (simp add: rolling_def take_map)

lemma movements_row_causal:
  assumes "take (Suc i) xs = take (Suc i) ys" "i < length xs" "i < length ys"
  shows "return_1min (movements_row xs i) = return_1min (movements_row ys i)"
    "return_5min (movements_row xs i) = return_5min (movements_row ys i)"
    "rolling_max_30min (movements_row xs i) = rolling_max_30min (movements_row ys i)"
    "is_30min_high (movements_row xs i) = is_30min_high (movements_row ys i)"
    "large_total_ma30 (movements_row xs i) = large_total_ma30 (movements_row ys i)"
proof -
  have r: "xs ! i = ys ! i" using assms(1) by (rule take_Suc_nth_eq) simp
  show "return_1min (movements_row xs i) = return_1min (movements_row ys i)"
    "return_5min (movements_row xs i) = return_5min (movements_row ys i)"
    by (simp_all add: movements_row_def Let_def pct_change_prefix[OF assms])
  show "rolling_max_30min (movements_row xs i) = rolling_max_30min (movements_row ys i)"
    "is_30min_high (movements_row xs i) = is_30min_high (movements_row ys i)"
    "large_total_ma30 (movements_row xs i) = large_total_ma30 (movements_row ys i)"
    by (simp_all add: movements_row_def Let_def rolling_prefix[OF assms(1)] r)
qed

lemma movements_row_daily:
  assumes "take (Suc i) xs = take (Suc i) ys"
    "filter (\<lambda>r. dt_date (datetime r) = dt_date (datetime (xs ! i))) xs =
     filter (\<lambda>r. dt_date (datetime r) = dt_date (datetime (xs ! i))) ys"
  shows "daily_high (movements_row xs i) = daily_high (movements_row ys i)"
    "daily_low (movements_row xs i) = daily_low (movements_row ys i)"
    "is_daily_high (movements_row xs i) = is_daily_high (movements_row ys i)"
    "is_daily_low (movements_row xs i) = is_daily_low (movements_row ys i)"
proof -
  have r: "xs ! i = ys ! i" using assms(1) by (rule take_Suc_nth_eq) simp
  have d: "day_closes xs i = day_closes ys i"
    using assms(2) by (simp add: day_closes_def flip: r)
  show "daily_high (movements_row xs i) = daily_high (movements_row ys i)"
    "daily_low (movements_row xs i) = daily_low (movements_row ys i)"
    "is_daily_high (movements_row xs i) = is_daily_high (movements_row ys i)"
    "is_daily_low (movements_row xs i) = is_daily_low (movements_row ys i)"
    by (simp_all add: movements_row_def Let_def d r)
qed

text \<open>
  When two frames agree on the rows of a symbol up to and including row \<open>i\<close>, the columns
  \<open>return_1min\<close>, \<open>return_5min\<close>, \<open>rolling_max_30min\<close>, \<open>is_30min_high\<close> and
  \<open>large_total_ma30\<close> agree at row \<open>i\<close>. The columns \<open>daily_high\<close>, \<open>daily_low\<close>,
  \<open>is_daily_high\<close> and \<open>is_daily_low\<close> agree when the two frames also hold the same rows
  of the symbol on the calendar day of row \<open>i\<close>.
\<close>

lemma causal_columns:
  fixes data1 data2 :: "row list"
  assumes "take (Suc i) (filter (\<lambda>r. symbol r = s) data1) =
           take (Suc i) (filter (\<lambda>r. symbol r = s) data2)"
    and "i < length (filter (\<lambda>r. symbol r = s) data1)"
    and "i < length (filter (\<lambda>r. symbol r = s) data2)"
  shows "(let r1 = filter (\<lambda>r. symbol r = s)
                     (calculate_price_movements data1 (stocks_of data1)) ! i;
              r2 = filter (\<lambda>r. symbol r = s)
                     (calculate_price_movements data2 (stocks_of data2)) ! i;
              day = dt_date (datetime (filter (\<lambda>r. symbol r = s) data1 ! i))
          in return_1min r1 = return_1min r2 \<and>
             return_5min r1 = return_5min r2 \<and>
             rolling_max_30min r1 = rolling_max_30min r2 \<and>
             is_30min_high r1 = is_30min_high r2 \<and>
             large_total_ma30 r1 = large_total_ma30 r2 \<and>
             (filter (\<lambda>r. symbol r = s \<and> dt_date (datetime r) = day) data1 =
              filter (\<lambda>r. symbol r = s \<and> dt_date (datetime r) = day) data2 \<longrightarrow>
                daily_high r1 = daily_high r2 \<and> daily_low r1 = daily_low r2 \<and>
                is_daily_high r1 = is_daily_high r2 \<and> is_daily_low r1 = is_daily_low r2))"
proof -
  let ?S1 = "filter (\<lambda>r. symbol r = s) data1"
  let ?S2 = "filter (\<lambda>r. symbol r = s) data2"
  have r1: "filter (\<lambda>r. symbol r = s) (calculate_price_movements data1 (stocks_of data1)) ! i =
              movements_row ?S1 i"
    using assms(2) by (simp add: filter_symbol_frame nth_price_movements_symbol)
  have r2: "filter (\<lambda>r. symbol r = s) (calculate_price_movements data2 (stocks_of data2)) ! i =
              movements_row ?S2 i"
    using assms(3) by (simp add: filter_symbol_frame nth_price_movements_symbol)
  have day: "filter (\<lambda>r. symbol r = s \<and> dt_date (datetime r) = d) data =
             filter (\<lambda>r. dt_date (datetime r) = d) (filter (\<lambda>r. symbol r = s) data)"
    for d and data :: "row list"
    by simp
  show ?thesis
    unfolding Let_def r1 r2 day
    using movements_row_causal[OF assms] movements_row_daily[OF assms(1)]
    by simp
qed

text \<open>
  C5. The daily columns look ahead. The second input holds the bars of the first and one
  later bar of \<^verbatim>\<open>A\<close>, at 09:03 of the second day, so the two agree on the history of
  \<^verbatim>\<open>A\<close> up to 09:02. At the row of \<^verbatim>\<open>A\<close> at 09:02 the daily high is 51 in the first
  frame and 52 in the second; the row is a daily high and a leader signal in the first
  and neither in the second; the run emits the pair of \<^verbatim>\<open>A\<close> and \<^verbatim>\<open>B\<close> on the first
  input and no pair on the second. The columns listed are the timestamp, \<open>daily_high\<close>,
  \<open>is_daily_high\<close>, \<open>is_30min_high\<close> and \<open>leader_signal\<close>.
\<close>

theorem daily_high_lookahead:
  "lookahead_bars_later = lookahead_bars @ [mk_bar ''A'' 33 3 52 0 0] \<and>
   datetime (mk_bar ''A'' 33 3 52 0 0) = 118980 \<and>
   map (\<lambda>r. (datetime r, daily_high r, is_daily_high r, is_30min_high r, leader_signal r))
     (take 3 (filter (\<lambda>r. symbol r = ''A'')
        (analysis_frame (13 / 10) 1000000 (3 / 1000) lookahead_bars))) =
     [(48600, 60, True, True, False), (118860, 51, False, False, False),
      (118920, 51, True, False, True)] \<and>
   map (\<lambda>r. (datetime r, daily_high r, is_daily_high r, is_30min_high r, leader_signal r))
     (take 3 (filter (\<lambda>r. symbol r = ''A'')
        (analysis_frame (13 / 10) 1000000 (3 / 1000) lookahead_bars_later))) =
     [(48600, 60, True, True, False), (118860, 52, False, False, False),
      (118920, 52, False, False, False)] \<and>
   analysis_pairs (13 / 10) 1000000 (3 / 1000) (Fin 30) (1 / 2) lookahead_bars =
     Inr [pair_lookahead] \<and>
   analysis_pairs (13 / 10) 1000000 (3 / 1000) (Fin 30) (1 / 2) lookahead_bars_later = Inr []"
proof -
  have a: "lookahead_bars_later = lookahead_bars @ [mk_bar ''A'' 33 3 52 0 0]"
    by (simp add: lookahead_bars_later_def)
  have b: "datetime (mk_bar ''A'' 33 3 52 0 0) = 118980"
    by (simp add: mk_bar_def)
  have c: "map (\<lambda>r. (datetime r, daily_high r, is_daily_high r, is_30min_high r, leader_signal r))
     (take 3 (filter (\<lambda>r. symbol r = ''A'')
        (analysis_frame (13 / 10) 1000000 (3 / 1000) lookahead_bars))) =
     [(48600, 60, True, True, False), (118860, 51, False, False, False),
      (118920, 51, True, False, True)]"
    by code_simp
  have d: "map (\<lambda>r. (datetime r, daily_high r, is_daily_high r, is_30min_high r, leader_signal r))
     (take 3 (filter (\<lambda>r. symbol r = ''A'')
        (analysis_frame (13 / 10) 1000000 (3 / 1000) lookahead_bars_later))) =
     [(48600, 60, True, True, False), (118860, 52, False, False, False),
      (118920, 52, False, False, False)]"
    by code_simp
  have e: "analysis_pairs (13 / 10) 1000000 (3 / 1000) (Fin 30) (1 / 2) lookahead_bars =
     Inr [pair_lookahead]"
    by code_simp
  have f: "analysis_pairs (13 / 10) 1000000 (3 / 1000) (Fin 30) (1 / 2) lookahead_bars_later =
     Inr []"
    by code_simp
  from a b c d e f show ?thesis by (intro conjI)
qed

subsection \<open>Parameters are taken as they come\<close>

lemma follower_response_empty_window:
  assumes "W \<le> datetime signal * 1000000"
  shows "follower_response data signal f W g = None"
proof -
  have "filter (\<lambda>r. symbol r = f \<and> datetime r > datetime signal \<and>
                     datetime r * 1000000 \<le> W) data = []"
    using assms by (auto simp: filter_empty_conv)
  then show ?thesis by (simp add: follower_response_def Let_def)
qed

lemma window_end_at_nonpos:
  assumes "window_end_at t (Fin x) = Inr w" "x \<le> 0"
  shows "w \<le> t * 1000000"
proof -
  from window_end_at_Inr[OF assms(1)] obtain td where
    td: "timedelta_minutes (Fin x) = Inr td" "w = t * 1000000 + td"
    by blast
  from timedelta_minutes_Inr[OF td(1)] have "td = rint (x * 60000000)" by simp
  moreover have "x * 60000000 \<le> 0" using assms(2) by simp
  ultimately have "td \<le> 0" by (simp only: rint_nonpos)
  with td(2) show ?thesis by simp
qed

lemma analyze_empty_window:
  assumes "analyze_leader_follower_relationships data stocks (Fin x) g = Inr pairs" "x \<le> 0"
  shows "pairs = []"
proof (rule ccontr)
  assume "pairs \<noteq> []"
  then obtain p where "p \<in> set pairs" by (cases pairs) auto
  with assms(1) obtain signal f w where
    w: "window_end_at (datetime signal) (Fin x) = Inr w"
    and resp: "follower_response data signal f w g = Some p"
    by (rule pairs_mem)
  from window_end_at_nonpos[OF w assms(2)]
  have "follower_response data signal f w g = None"
    by (rule follower_response_empty_window)
  with resp show False by simp
qed

lemma analyze_Inl:
  assumes "analyze_leader_follower_relationships data stocks L g = Inl e"
  shows "\<exists>signal \<in> set data. leader_signal signal \<and>
           window_end_at (datetime signal) L = Inl e"
proof -
  from scan_signals_Inl[OF assms[unfolded analyze_leader_follower_relationships_def]]
  obtain signal where "signal \<in> set (filter leader_signal data)"
    "signal_pairs data stocks L g signal = Inl e"
    by blast
  then show ?thesis by (auto simp: signal_pairs_Inl)
qed

lemma analyze_returns:
  assumes "\<forall>signal \<in> set data. leader_signal signal \<longrightarrow>
             \<not> isl (window_end_at (datetime signal) L)"
  shows "\<exists>pairs. analyze_leader_follower_relationships data stocks L g = Inr pairs"
proof (cases "analyze_leader_follower_relationships data stocks L g")
  case (Inl e)
  from analyze_Inl[OF this] assms show ?thesis by auto
next
  case (Inr pairs)
  then show ?thesis by simp
qed

text \<open>
  C6, as amended. Misconfigured parameters are not rejected before the scan. With
  \<open>money_multiplier \<le> 1\<close> the signal identifier flags the rows that satisfy the five
  conjuncts for that multiplier, as for any other. With a finite \<open>max_lag_minutes \<le> 0\<close>
  the matcher emits no pair: when it returns, it returns the empty collection; it returns
  when the window end can be computed at every leader signal of the frame; and when it
  raises, the exception is the one of the window computation at a leader signal of the
  frame, inside the loop over the signals.
\<close>

theorem parameters_not_validated:
  "(money_multiplier \<le> 1 \<longrightarrow>
      set (leader_signals
             (identify_leader_signals money_multiplier min_amount min_price_change sdata)) =
        {s \<in> set (identify_leader_signals money_multiplier min_amount min_price_change sdata).
           large_total s > large_total_ma30 s * money_multiplier \<and>
           large_total s > min_amount \<and>
           large_net s > 0 \<and>
           fgt (return_1min s) min_price_change \<and>
           (is_daily_high s \<or> is_30min_high s)}) \<and>
   (x \<le> 0 \<longrightarrow>
      (\<forall>pairs. analyze_leader_follower_relationships data stocks (Fin x) min_gain = Inr pairs
         \<longrightarrow> pairs = []) \<and>
      ((\<forall>signal \<in> set data. leader_signal signal \<longrightarrow>
           \<not> isl (window_end_at (datetime signal) (Fin x))) \<longrightarrow>
         analyze_leader_follower_relationships data stocks (Fin x) min_gain = Inr []) \<and>
      (\<forall>e. analyze_leader_follower_relationships data stocks (Fin x) min_gain = Inl e \<longrightarrow>
         (\<exists>signal \<in> set data. leader_signal signal \<and>
            window_end_at (datetime signal) (Fin x) = Inl e)))"
proof (intro conjI impI allI)
  show "set (leader_signals
             (identify_leader_signals money_multiplier min_amount min_price_change sdata)) =
        {s \<in> set (identify_leader_signals money_multiplier min_amount min_price_change sdata).
           large_total s > large_total_ma30 s * money_multiplier \<and>
           large_total s > min_amount \<and>
           large_net s > 0 \<and>
           fgt (return_1min s) min_price_change \<and>
           (is_daily_high s \<or> is_30min_high s)}"
    by (rule leader_signals_set)
next
  fix pairs
  assume "x \<le> 0"
    and "analyze_leader_follower_relationships data stocks (Fin x) min_gain = Inr pairs"
  then show "pairs = []" by (rule analyze_empty_window[rotated])
next
  assume x: "x \<le> 0"
    and ok: "\<forall>signal \<in> set data. leader_signal signal \<longrightarrow>
           \<not> isl (window_end_at (datetime signal) (Fin x))"
  from analyze_returns[OF ok] obtain pairs where
    r: "analyze_leader_follower_relationships data stocks (Fin x) min_gain = Inr pairs"
    by blast
  from analyze_empty_window[OF r x] r
  show "analyze_leader_follower_relationships data stocks (Fin x) min_gain = Inr []"
    by simp
next
  fix e
  assume "analyze_leader_follower_relationships data stocks (Fin x) min_gain = Inl e"
  then show "\<exists>signal \<in> set data. leader_signal signal \<and>
            window_end_at (datetime signal) (Fin x) = Inl e"
    by (rule analyze_Inl)
qed

text \<open>
  The claim as stated fails: with the multiplier 0.5 the sample run flags two signals and
  emits three pairs, and with a window of 0 minutes it returns the empty collection.
\<close>

theorem misconfiguration_rejected_counterexample:
  "(1 / 2 :: rat) \<le> 1 \<and>
   map datetime (leader_signals (analysis_frame (1 / 2) 1000000 (3 / 1000) example_bars)) =
     [33000, 33120] \<and>
   map_sum id (map (\<lambda>p. (leader_symbol p, follower_symbol p)))
     (analysis_pairs (1 / 2) 1000000 (3 / 1000) (Fin 30) (1 / 2) example_bars) =
     Inr [(''A'', ''B''), (''A'', ''C''), (''C'', ''B'')] \<and>
   (0 :: rat) \<le> 0 \<and>
   analysis_pairs (13 / 10) 1000000 (3 / 1000) (Fin 0) (1 / 2) example_bars = Inr []"
proof -
  have a: "map datetime (leader_signals (analysis_frame (1 / 2) 1000000 (3 / 1000) example_bars)) =
     [33000, 33120]"
    by code_simp
  have b: "map_sum id (map (\<lambda>p. (leader_symbol p, follower_symbol p)))
     (analysis_pairs (1 / 2) 1000000 (3 / 1000) (Fin 30) (1 / 2) example_bars) =
     Inr [(''A'', ''B''), (''A'', ''C''), (''C'', ''B'')]"
    by code_simp
  have c: "(1 / 2 :: rat) \<le> 1" "(0 :: rat) \<le> 0" by simp_all
  have d: "analysis_pairs (13 / 10) 1000000 (3 / 1000) (Fin 0) (1 / 2) example_bars = Inr []"
    by code_simp
  from c a b d show ?thesis by (intro conjI)
qed

text \<open>
  On the frame of the sample run: the multiplier 0.5 flags the row of \<^verbatim>\<open>A\<close> at 09:10; a
  window of minus five minutes gives the empty collection; a window of minus ten trillion
  minutes is beyond the range of \<^verbatim>\<open>timedelta\<close>, and the matcher raises its
  \<^verbatim>\<open>OverflowError\<close> at a leader signal.
\<close>

theorem parameters_not_validated_witness:
  "(1 / 2 :: rat) \<le> 1 \<and>
   analysis_frame (1 / 2) 1000000 (3 / 1000) example_bars ! 1
     \<in> set (leader_signals (analysis_frame (1 / 2) 1000000 (3 / 1000) example_bars)) \<and>
   large_total (analysis_frame (1 / 2) 1000000 (3 / 1000) example_bars ! 1) >
     large_total_ma30 (analysis_frame (1 / 2) 1000000 (3 / 1000) example_bars ! 1) * (1 / 2) \<and>
   (- 5 :: rat) \<le> 0 \<and>
   analyze_leader_follower_relationships example_frame (stocks_of (load_data example_bars))
     (Fin (- 5)) (1 / 2) = Inr [] \<and>
   (- 10000000000000 :: rat) \<le> 0 \<and>
   analyze_leader_follower_relationships example_frame (stocks_of (load_data example_bars))
     (Fin (- 10000000000000)) (1 / 2) = Inl OverflowError \<and>
   (\<exists>signal \<in> set example_frame. leader_signal signal \<and>
      window_end_at (datetime signal) (Fin (- 10000000000000)) = Inl OverflowError)"
proof -
  let ?F = "analysis_frame (1 / 2) 1000000 (3 / 1000) example_bars"
  have fr: "?F = identify_leader_signals (1 / 2) 1000000 (3 / 1000)
        (calculate_price_movements (load_data example_bars) (stocks_of (load_data example_bars)))"
    by (simp add: analysis_frame_def Let_def)
  have mem: "?F ! 1 \<in> set (leader_signals ?F)" by code_simp
  have ok: "\<forall>signal \<in> set example_frame. leader_signal signal \<longrightarrow>
              \<not> isl (window_end_at (datetime signal) (Fin (- 5)))"
    by code_simp
  have err: "analyze_leader_follower_relationships example_frame
      (stocks_of (load_data example_bars)) (Fin (- 10000000000000)) (1 / 2) = Inl OverflowError"
    by code_simp
  note inst = parameters_not_validated[where data = example_frame
      and stocks = "stocks_of (load_data example_bars)" and min_gain = "1 / 2"
      and money_multiplier = "1 / 2" and min_amount = 1000000 and min_price_change = "3 / 1000"
      and sdata = "calculate_price_movements (load_data example_bars)
                     (stocks_of (load_data example_bars))", folded fr]
  from inst[where x = "- 5"] mem
  have b: "large_total (?F ! 1) > large_total_ma30 (?F ! 1) * (1 / 2)"
    by simp
  from inst[where x = "- 5"] ok
  have a: "analyze_leader_follower_relationships example_frame
      (stocks_of (load_data example_bars)) (Fin (- 5)) (1 / 2) = Inr []"
    by simp
  from inst[where x = "- 10000000000000"] err
  have c: "\<exists>signal \<in> set example_frame. leader_signal signal \<and>
      window_end_at (datetime signal) (Fin (- 10000000000000)) = Inl OverflowError"
    by simp
  have d: "(1 / 2 :: rat) \<le> 1" "(- 5 :: rat) \<le> 0" "(- 10000000000000 :: rat) \<le> 0"
    by simp_all
  from d mem b a err c show ?thesis by (intro conjI)
qed

subsection \<open>The aggregator returns\<close>



lemma groupby_keys:
  "map row_key (leader_groupby pairs_df) = sort (remdups (map leader_symbol pairs_df))"
  "map row_key (follower_groupby pairs_df) = sort (remdups (map follower_symbol pairs_df))"
  "map row_key (pair_groupby pairs_df) =
     sort (remdups (map (\<lambda>p. (leader_symbol p, follower_symbol p)) pairs_df))"
  by (simp_all add: leader_groupby_def follower_groupby_def pair_groupby_def row_key_def
        comp_def Let_def)

lemma groupby_counts:
  "\<forall>r \<in> set (leader_groupby pairs_df).
      row_count r = length (filter (\<lambda>p. leader_symbol p = row_key r) pairs_df)"
  "\<forall>r \<in> set (follower_groupby pairs_df).
      row_count r = length (filter (\<lambda>p. follower_symbol p = row_key r) pairs_df)"
  "\<forall>r \<in> set (pair_groupby pairs_df).
      row_count r =
        length (filter (\<lambda>p. (leader_symbol p, follower_symbol p) = row_key r) pairs_df)"
  by (auto simp: leader_groupby_def follower_groupby_def pair_groupby_def row_key_def
        row_count_def Let_def)

lemma example_summary_admissible:
  "calculate_success_rates [pair_AB, pair_AC, pair_CB]
     None (Stats example_summary, Some (Stats example_summary))"
proof -
  have g: "leader_groupby [pair_AB, pair_AC, pair_CB] =
             [(''A'', 2, 5, Fin (14 / 5), 3000000), (''C'', 1, 6, Fin (3 / 5), 3000000)]"
    "follower_groupby [pair_AB, pair_AC, pair_CB] =
             [(''B'', 2, 7, Fin (3 / 5)), (''C'', 1, 2, Fin 5)]"
    "pair_groupby [pair_AB, pair_AC, pair_CB] =
             [((''A'', ''B''), 1, 8, Fin (3 / 5)), ((''A'', ''C''), 1, 2, Fin 5),
              ((''C'', ''B''), 1, 6, Fin (3 / 5))]"
    by code_simp+
  have v: "mean (map time_lag_minutes [pair_AB, pair_AC, pair_CB]) = 16 / 3"
    "median (map time_lag_minutes [pair_AB, pair_AC, pair_CB]) = 6"
    "fmean (map follower_gain_pct [pair_AB, pair_AC, pair_CB]) = Fin (31 / 15)"
    "fmax (map follower_gain_pct [pair_AB, pair_AC, pair_CB]) = Fin 5"
    by code_simp+
  show ?thesis
    unfolding calculate_success_rates_def g v
    by (simp add: example_summary_def sort_values_desc_def row_count_def)
qed

subsection \<open>The summary of an empty pair collection\<close>




subsection \<open>The order of the summary tables\<close>

text \<open>
  C8, as amended. In each of the three tables of a summary the rows are in descending
  order of their counts, and they are the rows of the grouped table: one row for each
  key, the keys ascending before the sort, the count the number of pairs with the key.
  The order among rows of equal count is the one the sort happens to return.
\<close>

theorem rankings_by_descending_count:
  assumes "calculate_success_rates pairs_df st (Stats s, st')"
  shows "sorted_wrt (\<lambda>a b. row_count a \<ge> row_count b) (leader_ranking s) \<and>
         sorted_wrt (\<lambda>a b. row_count a \<ge> row_count b) (follower_ranking s) \<and>
         sorted_wrt (\<lambda>a b. row_count a \<ge> row_count b) (best_pairs s) \<and>
         mset (leader_ranking s) = mset (leader_groupby pairs_df) \<and>
         mset (follower_ranking s) = mset (follower_groupby pairs_df) \<and>
         mset (best_pairs s) = mset (pair_groupby pairs_df) \<and>
         sorted (map row_key (leader_groupby pairs_df)) \<and>
         distinct (map row_key (leader_groupby pairs_df)) \<and>
         sorted (map row_key (follower_groupby pairs_df)) \<and>
         distinct (map row_key (follower_groupby pairs_df)) \<and>
         sorted (map row_key (pair_groupby pairs_df)) \<and>
         distinct (map row_key (pair_groupby pairs_df)) \<and>
         (\<forall>r \<in> set (leader_ranking s).
            row_count r = length (filter (\<lambda>p. leader_symbol p = row_key r) pairs_df)) \<and>
         (\<forall>r \<in> set (follower_ranking s).
            row_count r = length (filter (\<lambda>p. follower_symbol p = row_key r) pairs_df)) \<and>
         (\<forall>r \<in> set (best_pairs s).
            row_count r =
              length (filter (\<lambda>p. (leader_symbol p, follower_symbol p) = row_key r) pairs_df))"
proof -
  from assms have ne: "pairs_df \<noteq> []"
    by (auto simp: calculate_success_rates_def)
  with assms have sv: "sort_values_desc (leader_groupby pairs_df) (leader_ranking s)"
    "sort_values_desc (follower_groupby pairs_df) (follower_ranking s)"
    "sort_values_desc (pair_groupby pairs_df) (best_pairs s)"
    by (simp_all add: calculate_success_rates_def)
  then have ms: "mset (leader_ranking s) = mset (leader_groupby pairs_df)"
    "mset (follower_ranking s) = mset (follower_groupby pairs_df)"
    "mset (best_pairs s) = mset (pair_groupby pairs_df)"
    by (simp_all add: sort_values_desc_def)
  then have st: "set (leader_ranking s) = set (leader_groupby pairs_df)"
    "set (follower_ranking s) = set (follower_groupby pairs_df)"
    "set (best_pairs s) = set (pair_groupby pairs_df)"
    by (auto dest: mset_eq_setD)
  show ?thesis
    using sv ms groupby_counts[of pairs_df]
    by (simp add: sort_values_desc_def groupby_keys st)
qed

lemma tied_summary_admissible:
  "calculate_success_rates tied_pairs None (Stats tied_summary, Some (Stats tied_summary))"
  by code_simp

text \<open>
  The claim as stated fails: on the eighteen leaders of one pair each, the aggregator may
  return a summary whose table of leaders lists \<^verbatim>\<open>2882\<close> down to \<^verbatim>\<open>1216\<close> after
  \<^verbatim>\<open>1102\<close>, all with the count 1.
\<close>

theorem tie_order_counterexample:
  "calculate_success_rates tied_pairs None (Stats tied_summary, Some (Stats tied_summary)) \<and>
   map row_count (leader_ranking tied_summary) = replicate 18 1 \<and>
   map row_key (leader_ranking tied_summary) =
     [''1101'', ''1102'', ''2882'', ''2881'', ''2454'', ''2412'',
      ''2382'', ''2357'', ''2330'', ''2317'', ''2308'', ''2303'',
      ''2002'', ''1326'', ''1303'', ''1301'', ''1216'', ''3008''] \<and>
   \<not> sorted_wrt (\<lambda>a b. row_count a = row_count b \<longrightarrow> row_key a < row_key b)
       (leader_ranking tied_summary)"
proof (intro conjI)
  show "calculate_success_rates tied_pairs None (Stats tied_summary, Some (Stats tied_summary))"
    by (rule tied_summary_admissible)
  show "map row_count (leader_ranking tied_summary) = replicate 18 1"
    by code_simp
  show "map row_key (leader_ranking tied_summary) =
     [''1101'', ''1102'', ''2882'', ''2881'', ''2454'', ''2412'',
      ''2382'', ''2357'', ''2330'', ''2317'', ''2308'', ''2303'',
      ''2002'', ''1326'', ''1303'', ''1301'', ''1216'', ''3008'']"
    by code_simp
  show "\<not> sorted_wrt (\<lambda>a b. row_count a = row_count b \<longrightarrow> row_key a < row_key b)
       (leader_ranking tied_summary)"
    by code_simp
qed

text \<open>
  On the three pairs of the sample run, a summary the aggregator may return.
\<close>

theorem rankings_by_descending_count_witness:
  "calculate_success_rates [pair_AB, pair_AC, pair_CB]
     None (Stats example_summary, Some (Stats example_summary)) \<and>
   sorted_wrt (\<lambda>a b. row_count a \<ge> row_count b) (leader_ranking example_summary) \<and>
   sorted_wrt (\<lambda>a b. row_count a \<ge> row_count b) (best_pairs example_summary) \<and>
   mset (best_pairs example_summary) = mset (pair_groupby [pair_AB, pair_AC, pair_CB]) \<and>
   map row_count (leader_ranking example_summary) = [2, 1] \<and>
   map row_count (best_pairs example_summary) = [1, 1, 1]"
proof -
  have c: "map row_count (leader_ranking example_summary) = [2, 1]"
    "map row_count (best_pairs example_summary) = [1, 1, 1]"
    by (simp_all add: example_summary_def row_count_def)
  from rankings_by_descending_count[OF example_summary_admissible] example_summary_admissible c
  show ?thesis by blast
qed

end
